theory Spec2Isabelle
  imports
    Complex_Main
    "HOL-Library.Log_Nat"
    "HOL-Library.Sublist"
    "HOL-Library.Multiset"
    "HOL-Library.Monad_Syntax"
begin

section \<open>JavaScript numbers\<close>

text \<open>
  Every number of the source is an IEEE-754 double. Vote counts, list lengths and
  counters are non-negative integers, on which addition, subtraction and comparison are
  exact (up to \<open>2^53\<close>); they are modelled as \<open>nat\<close> and \<open>int\<close>. Division and
  multiplication are not exact: the quotient \<open>23 / 40\<close> is the double
  \<open>0x1.2666666666666p-1\<close>, just below 0.575, and \<open>(23 / 40) * 100\<close> is the double
  \<open>0x1.cbfffffffffffp+5\<close>, printed \<open>57.49999999999999\<close>, not 57.5. The model therefore rounds every quotient and
  product to 53 significant bits, ties to even, as the hardware does. A double is
  represented by the rational number it denotes; exponent overflow and underflow are
  not modelled (they are out of reach of quotients of integers below \<open>2^53\<close>).
\<close>

definition rnd_even :: "rat \<Rightarrow> int" where
  "rnd_even x = (let f = \<lfloor>x\<rfloor>; r = x - of_int f in
     if r < 1/2 then f else if 1/2 < r then f + 1 else if even f then f else f + 1)"

text \<open>\<open>ilog2 x\<close> is the binary exponent of a positive rational: \<open>2^ilog2 x \<le> x < 2^(ilog2 x + 1)\<close>.\<close>

definition ilog2 :: "rat \<Rightarrow> int" where
  "ilog2 x = (let (n, d) = quotient_of x; k = bitlen n - bitlen d in
     if 2 powi k \<le> x then k else k - 1)"

text \<open>\<open>fl x\<close> is the double nearest to \<open>x\<close>: the significand \<open>\<bar>x\<bar> / 2^e\<close> lies in
  \<open>[2^52, 2^53)\<close> and is rounded to an integer.\<close>

definition fl :: "rat \<Rightarrow> rat" where
  "fl x = (if x = 0 then 0 else
     let e = ilog2 \<bar>x\<bar> - 52 in sgn x * of_int (rnd_even (\<bar>x\<bar> / 2 powi e)) * 2 powi e)"

text \<open>\<open>a / b\<close>: \<open>None\<close> stands for the non-finite results of a division by zero
  (\<open>NaN\<close>, \<open>Infinity\<close>), which no later operation turns back into a number.\<close>

definition js_div :: "rat \<Rightarrow> rat \<Rightarrow> rat option" where
  "js_div a b = (if b = 0 then None else Some (fl (a / b)))"

definition js_mul :: "rat \<Rightarrow> rat \<Rightarrow> rat" where
  "js_mul a b = fl (a * b)"

text \<open>\<open>Math.round\<close> is exact on the double it receives: the nearest integer, a tie going up.\<close>

definition Math_round :: "rat \<Rightarrow> int" where
  "Math_round x = \<lfloor>x + 1/2\<rfloor>"

text \<open>The expression \<open>Math.round((a / b) * 100)\<close>, which the source writes out at each of
  its five rates.\<close>

definition percent :: "nat \<Rightarrow> nat \<Rightarrow> int option" where
  "percent a b = do {
     q \<leftarrow> js_div (of_nat a) (of_nat b);
     Some (Math_round (js_mul q 100))
   }"

text \<open>The literal \<open>0.8\<close> is the double nearest to 4/5.\<close>

definition lit_0_8 :: rat where
  "lit_0_8 = fl (8 / 10)"

text \<open>\<open>x || d\<close> on an optional number: \<open>undefined\<close> and \<open>0\<close> are both falsy.\<close>

definition num_or :: "nat option \<Rightarrow> nat \<Rightarrow> nat" where
  "num_or x d = (case x of None \<Rightarrow> d | Some n \<Rightarrow> if n = 0 then d else n)"

text \<open>Template-literal rendering of a count, \<open>`${n}`\<close>: its decimal digits.\<close>

fun string_of_nat :: "nat \<Rightarrow> string" where
  "string_of_nat n =
     (if n < 10 then [char_of (48 + n)]
      else string_of_nat (n div 10) @ [char_of (48 + n mod 10)])"

section \<open>Strings\<close>

text \<open>
  A string is the list of the bytes of its UTF-8 encoding, so every JavaScript string
  has a model and \<open>includes\<close> means the same on both (UTF-8 is self-synchronising).
  The accented letters of the source's literals are two bytes each.
\<close>

definition i_acute :: string where
  "i_acute = [CHR 0xC3, CHR 0xAD]"

definition o_acute :: string where
  "o_acute = [CHR 0xC3, CHR 0xB3]"

text \<open>\<open>s.includes(t)\<close>: \<open>t\<close> occurs in \<open>s\<close> as a contiguous block.\<close>

fun str_includes :: "string \<Rightarrow> string \<Rightarrow> bool" where
  "str_includes [] t = (t = [])"
| "str_includes (c # cs) t = (prefix t (c # cs) \<or> str_includes cs t)"

text \<open>\<open>s.toLowerCase()\<close> on the letters A to Z. Of the other code points, JavaScript
  maps only U+212A to an ASCII letter (\<open>k\<close>) and U+0130 to \<open>i\<close> followed by a combining
  dot; neither can make or break an occurrence of the two words the source looks for in
  lower-cased text, \<open>gobierno\<close> and \<open>mixto\<close>.\<close>

definition toLowerCase :: "string \<Rightarrow> string" where
  "toLowerCase s = map (\<lambda>c. let n = (of_char c :: nat) in
     if 65 \<le> n \<and> n \<le> 90 then char_of (n + 32) else c) s"

text \<open>\<open>s || ""\<close> on an optional string.\<close>

definition str_or_empty :: "string option \<Rightarrow> string" where
  "str_or_empty s = (case s of None \<Rightarrow> [] | Some t \<Rightarrow> t)"

text \<open>\<open>parts.join(', ')\<close>.\<close>

fun join_comma :: "string list \<Rightarrow> string" where
  "join_comma [] = []"
| "join_comma [s] = s"
| "join_comma (s # t # ss) = s @ '', '' @ join_comma (t # ss)"

section \<open>Objects as ordered property lists\<close>

text \<open>
  An object is the list of its properties in the order of their creation. A
  \<open>Record<string, number>\<close> of the input is given as the list that \<open>Object.entries\<close>
  yields.
\<close>

type_synonym tally = "(string \<times> nat) list"

text \<open>\<open>Object.entries\<close> and \<open>Object.values\<close> list the keys that are array indices
  first, in ascending numeric order, then the other keys in creation order. An array
  index is the canonical decimal form of an integer below \<open>2^32 - 1\<close>.\<close>

fun nat_of_digits :: "nat \<Rightarrow> string \<Rightarrow> nat" where
  "nat_of_digits acc [] = acc"
| "nat_of_digits acc (c # cs) = nat_of_digits (10 * acc + (of_char c - 48)) cs"

definition array_index :: "string \<Rightarrow> nat option" where
  "array_index k =
     (if k \<noteq> [] \<and> list_all (\<lambda>c. 48 \<le> (of_char c :: nat) \<and> (of_char c :: nat) \<le> 57) k
         \<and> (k = ''0'' \<or> hd k \<noteq> CHR ''0'') \<and> nat_of_digits 0 k < 2 ^ 32 - 1
      then Some (nat_of_digits 0 k) else None)"

definition own_entries :: "(string \<times> 'v) list \<Rightarrow> (string \<times> 'v) list" where
  "own_entries obj =
     sort_key (\<lambda>e. case array_index (fst e) of None \<Rightarrow> 0 | Some n \<Rightarrow> n)
       (filter (\<lambda>e. array_index (fst e) \<noteq> None) obj)
     @ filter (\<lambda>e. array_index (fst e) = None) obj"

text \<open>\<open>obj[k] = v\<close>: an existing key keeps its place, a new one goes last.\<close>

fun assign :: "string \<Rightarrow> 'v \<Rightarrow> (string \<times> 'v) list \<Rightarrow> (string \<times> 'v) list" where
  "assign k v [] = [(k, v)]"
| "assign k v ((k', v') # kvs) = (if k' = k then (k, v) # kvs else (k', v') # assign k v kvs)"

text \<open>
  A lookup \<open>obj[k]\<close> in an object created as \<open>{}\<close> finds, when \<open>obj\<close> has no own
  property \<open>k\<close>, the member of \<open>Object.prototype\<close> of that name if there is one: a
  function, or for \<open>__proto__\<close> the prototype object itself, truthy all of them. These
  are the names of the language standard, its annex B included.
\<close>

definition prototype_members :: "string list" where
  "prototype_members =
     [''constructor'', ''hasOwnProperty'', ''isPrototypeOf'', ''propertyIsEnumerable'',
      ''toLocaleString'', ''toString'', ''valueOf'', ''__proto__'', ''__defineGetter__'',
      ''__defineSetter__'', ''__lookupGetter__'', ''__lookupSetter__'']"

definition inherited :: "string \<Rightarrow> bool" where
  "inherited k = (k \<in> set prototype_members)"

text \<open>\<open>xs.sort(cmp)\<close>. The language guarantees a stable sort; with a comparator that
  orders by a key, every stable sort returns the list that this insertion sort returns.\<close>

fun insort_cmp :: "('a \<Rightarrow> 'a \<Rightarrow> int) \<Rightarrow> 'a \<Rightarrow> 'a list \<Rightarrow> 'a list" where
  "insort_cmp cmp x [] = [x]"
| "insort_cmp cmp x (y # ys) = (if cmp x y \<le> 0 then x # y # ys else y # insort_cmp cmp x ys)"

definition sort_cmp :: "('a \<Rightarrow> 'a \<Rightarrow> int) \<Rightarrow> 'a list \<Rightarrow> 'a list" where
  "sort_cmp cmp xs = foldr (insort_cmp cmp) xs []"

text \<open>A \<open>forEach\<close> whose body can fail stops at the first failure.\<close>

fun fold_opt :: "('a \<Rightarrow> 's \<Rightarrow> 's option) \<Rightarrow> 'a list \<Rightarrow> 's \<Rightarrow> 's option" where
  "fold_opt f [] s = Some s"
| "fold_opt f (x # xs) s = (case f x s of None \<Rightarrow> None | Some s' \<Rightarrow> fold_opt f xs s')"

text \<open>A \<open>map\<close> whose callback can fail.\<close>

fun map_opt :: "('a \<Rightarrow> 'b option) \<Rightarrow> 'a list \<Rightarrow> 'b list option" where
  "map_opt f [] = Some []"
| "map_opt f (x # xs) =
     (case f x of None \<Rightarrow> None
      | Some y \<Rightarrow> (case map_opt f xs of None \<Rightarrow> None | Some ys \<Rightarrow> Some (y # ys)))"

section \<open>The data model: \<open>Initiative\<close>\<close>

text \<open>
  An optional property is an \<open>option\<close>. The fields \<open>totales\<close> and \<open>no_vote\<close> and the
  list \<open>noVote\<close> are read by \<open>participationStats.ts\<close> though the interface does not
  declare them (it has an index signature). \<open>exists\<close> absent is \<open>False\<close>, as it is
  falsy. Fields that no function reads (\<open>enlace\<close>, \<open>fecha_presentado\<close>,
  \<open>abstentions\<close>, \<open>voting.presentes\<close>) are left out.

  A count is a natural number. The source computes in doubles, in which sums and
  differences of integers are exact as long as they stay below \<open>2^53\<close>; the theorems
  that depend on it bound the counts.

  The two lists of deputies, \<open>voting.noVote\<close> and \<open>voting.missingDeputies\<close>, the
  source reads as \<open>any\<close>. Their type is the parameter \<open>'d\<close> of the data model. In an
  \<open>Initiative\<close> they are what the specification's data model has, lists of deputy
  records whose fields, where present, are strings. In an \<open>Initiative_any\<close> they are
  what a caller can pass under the declared types: a value that is no array, or an array
  some of whose elements are \<open>null\<close> or carry a \<open>grupo\<close> that is no string. The other
  three properties of a deputy, which the source only copies or uses as a property key,
  are strings there too.
\<close>

record Totales =
  afavor :: "nat option"
  enContra :: "nat option"
  abstenciones :: "nat option"
  presentes :: "nat option"
  noVotan :: "nat option"

record Desglose =
  desg_yes :: "tally option"
  desg_no :: "tally option"
  desg_abstention :: "tally option"
  desg_no_vote :: "tally option"

record VoteResult =
  totales :: "Totales option"
  desglose :: "Desglose option"

record Deputy =
  codParlamentario :: "string option"
  apellidosNombre :: "string option"
  grupo :: "string option"
  formacion :: "string option"

record 'd Voting_of =
  exists :: bool
  yes :: "nat option"
  no :: "nat option"
  result :: "VoteResult option"
  noVote :: "'d option"
  missingDeputies :: "'d option"

record 'd Initiative_of =
  resultado_tram :: "string option"
  autor :: "string option"
  titulo :: string
  voting :: "'d Voting_of option"

type_synonym Initiative = "Deputy list Initiative_of"

text \<open>A property typed \<open>any\<close> where the source expects a string: missing (or another
  falsy value that is no string), a string, or a truthy value of another type such as a
  number or an object.\<close>

datatype any_text = Absent | Text string | Not_text

record Deputy_any =
  any_codParlamentario :: "string option"
  any_apellidosNombre :: "string option"
  any_grupo :: any_text
  any_formacion :: "string option"

text \<open>An element of a list typed \<open>any[]\<close>: \<open>null\<close> or \<open>undefined\<close>, or an object (a
  number or a string in its place behaves as an object without properties). A value typed
  \<open>any\<close> where the source expects an array: a truthy value without a method
  \<open>forEach\<close>, such as a number or a plain object, or an array.\<close>

datatype any_element = Null | Object Deputy_any

datatype any_list = Not_array | Array "any_element list"

type_synonym Initiative_any = "any_list Initiative_of"

text \<open>\<open>init.voting?.exists\<close> as a condition.\<close>

definition voting_exists :: "'d Initiative_of \<Rightarrow> bool" where
  "voting_exists init = (case voting init of None \<Rightarrow> False | Some v \<Rightarrow> exists v)"

section \<open>\<open>consensusStats.ts\<close>: \<open>calculateConsensus\<close>\<close>

datatype Label = Unanimidad | Gran_Acuerdo | Division | Ajustada | Sin_Votacion

record ConsensusMetric =
  consensusIndex :: int
  label :: Label
  color :: string

definition sin_votacion :: ConsensusMetric where
  "sin_votacion = \<lparr>consensusIndex = 0, label = Sin_Votacion, color = ''#e5e7eb''\<rparr>"

text \<open>The classification, lines 24 to 51, with the default of line 25 that the inner
  test of line 43 keeps reachable in the text though never in fact.\<close>

definition classification :: "int \<Rightarrow> nat \<Rightarrow> Label \<times> string" where
  "classification ci no_votes =
     (if ci = 100 \<and> no_votes = 0 then (Unanimidad, ''#10B981'')
      else if ci \<ge> 80 then (Gran_Acuerdo, ''#34D399'')
      else if ci \<le> 55 \<and> ci \<ge> 45 then (Ajustada, ''#F59E0B'')
      else if ci < 45 then
        (if ci \<le> 55 then (Ajustada, ''#EF4444'') else (Division, ''#3B82F6''))
      else (Division, ''#FBBF24''))"

text \<open>Lines 9 to 54. \<open>totalVotes\<close> is the exact sum, which the sum of the source is
  when it is below \<open>2^53\<close>.\<close>

definition calculateConsensus :: "'d Initiative_of \<Rightarrow> ConsensusMetric option" where
  "calculateConsensus initiative =
     (case voting initiative of
        None \<Rightarrow> Some sin_votacion
      | Some v \<Rightarrow>
          if \<not> exists v then Some sin_votacion
          else
            let y = num_or (yes v) 0;
                n = num_or (no v) 0;
                totalVotes = y + n
            in if totalVotes = 0 then Some sin_votacion
               else do {
                 q \<leftarrow> js_div (of_nat y) (of_nat totalVotes);
                 let ratio = js_mul q 100;
                 let ci = Math_round ratio;
                 let (l, c) = classification ci n;
                 Some \<lparr>consensusIndex = ci, label = l, color = c\<rparr>
               })"

section \<open>\<open>consensusStats.ts\<close>: \<open>getAffinity\<close>\<close>

text \<open>\<open>src && Object.keys(src).some(k => k.includes(code))\<close>; an object is truthy
  whenever it is present.\<close>

definition keys_some :: "tally option \<Rightarrow> string \<Rightarrow> bool" where
  "keys_some src code =
     (case src of None \<Rightarrow> False | Some t \<Rightarrow> list_ex (\<lambda>k. str_includes k code) (map fst t))"

text \<open>Lines 67 to 70, and again 73 to 76 for the target: the category in which the code
  is found, \<open>""\<close> when it is in none. (The default \<open>"GS"\<close> of the parameter
  \<open>referenceCode\<close> is for the caller to pass.)\<close>

definition vote_of :: "Desglose \<Rightarrow> string \<Rightarrow> string" where
  "vote_of d code =
     (if keys_some (desg_yes d) code then ''yes''
      else if keys_some (desg_no d) code then ''no''
      else if keys_some (desg_abstention d) code then ''abs''
      else [])"

text \<open>\<open>init.voting.result?.desglose\<close> behind the test \<open>init.voting?.exists\<close>.\<close>

definition voted_desglose :: "'d Initiative_of \<Rightarrow> Desglose option" where
  "voted_desglose init =
     (case voting init of
        None \<Rightarrow> None
      | Some v \<Rightarrow>
          if \<not> exists v then None
          else (case result v of None \<Rightarrow> None | Some r \<Rightarrow> desglose r))"

text \<open>The body of the \<open>forEach\<close>, on the pair \<open>(matches, totalComparisons)\<close>.\<close>

definition affinity_step :: "string \<Rightarrow> string \<Rightarrow> 'd Initiative_of \<Rightarrow> nat \<times> nat \<Rightarrow> nat \<times> nat" where
  "affinity_step targetCode referenceCode init s =
     (case voted_desglose init of
        None \<Rightarrow> s
      | Some d \<Rightarrow>
          let refVote = vote_of d referenceCode;
              targetVote = vote_of d targetCode;
              (matches, totalComparisons) = s
          in if refVote \<noteq> [] \<and> targetVote \<noteq> []
             then (if refVote = targetVote then matches + 1 else matches, totalComparisons + 1)
             else s)"

definition getAffinity :: "'d Initiative_of list \<Rightarrow> string \<Rightarrow> string \<Rightarrow> int option" where
  "getAffinity initiatives targetCode referenceCode =
     (let (matches, totalComparisons) =
            fold (affinity_step targetCode referenceCode) initiatives (0, 0)
      in if totalComparisons > 0 then percent matches totalComparisons else Some 0)"

section \<open>\<open>consensusStats.ts\<close>: \<open>getRankings\<close>\<close>

text \<open>The object \<open>{ ...i, ...metric }\<close> is the pair of the two objects it is spread from.\<close>

type_synonym 'd Detail = "'d Initiative_of \<times> ConsensusMetric"

record 'd Rankings =
  topConsensus :: "'d Detail list"
  topDivisive :: "'d Detail list"

definition getRankings :: "'d Initiative_of list \<Rightarrow> 'd Rankings option" where
  "getRankings initiatives = do {
     let voted = filter voting_exists initiatives;
     details \<leftarrow> map_opt (\<lambda>i. map_option (\<lambda>metric. (i, metric)) (calculateConsensus i)) voted;
     let sorted = sort_cmp (\<lambda>a b. consensusIndex (snd b) - consensusIndex (snd a)) details;
     let sortedDivisive =
           sort_cmp (\<lambda>a b. \<bar>consensusIndex (snd a) - 50\<bar> - \<bar>consensusIndex (snd b) - 50\<bar>)
             details;
     Some \<lparr>topConsensus = take 5 sorted, topDivisive = take 5 sortedDivisive\<rparr>
   }"

section \<open>\<open>consensusStats.ts\<close>, lines 111 to 222 (the module \<open>dashboardStats\<close>): \<open>calculateDashboardStats\<close>\<close>

record Breakdown =
  success :: nat
  failure :: nat
  neutral :: nat

record Efficiency =
  eff_total :: nat
  eff_success :: nat
  eff_rate :: int

record AuthorEfficiency =
  gobierno :: Efficiency
  groups :: Efficiency

record DashboardStats =
  globalSuccessRate :: int
  breakdown :: Breakdown
  authorEfficiency :: AuthorEfficiency

text \<open>The local variables of the function.\<close>

record DashState =
  finalizedCount :: nat
  successCount :: nat
  failureCount :: nat
  neutralCount :: nat
  gov_total :: nat
  gov_success :: nat
  group_total :: nat
  group_success :: nat

definition Aprobado :: string where "Aprobado = ''Aprobado''"
definition Convalidado :: string where "Convalidado = ''Convalidado''"
definition Rechazado :: string where "Rechazado = ''Rechazado''"
definition Derogado :: string where "Derogado = ''Derogado''"
definition Retirado :: string where "Retirado = ''Retirado''"
definition Decaido :: string where "Decaido = ''Deca'' @ i_acute @ ''do''"

text \<open>The body of the \<open>forEach\<close>, lines 161 to 194.\<close>

definition dashboard_step :: "'d Initiative_of \<Rightarrow> DashState \<Rightarrow> DashState" where
  "dashboard_step init s =
     (let status = str_or_empty (resultado_tram init);
          author = str_or_empty (autor init);
          (s1, isFinalized, isSuccess) =
            (if str_includes status Aprobado \<or> str_includes status Convalidado
               then (s\<lparr>successCount := successCount s + 1\<rparr>, True, True)
             else if str_includes status Rechazado \<or> str_includes status Derogado
               then (s\<lparr>failureCount := failureCount s + 1\<rparr>, True, False)
             else if str_includes status Retirado \<or> str_includes status Decaido
               then (s\<lparr>neutralCount := neutralCount s + 1\<rparr>, True, False)
             else (s, False, False))
      in if isFinalized then
           (let s2 = s1\<lparr>finalizedCount := finalizedCount s1 + 1\<rparr>
            in if str_includes (toLowerCase author) ''gobierno''
               then s2\<lparr>gov_total := gov_total s2 + 1,
                        gov_success := (if isSuccess then gov_success s2 + 1 else gov_success s2)\<rparr>
               else s2\<lparr>group_total := group_total s2 + 1,
                        group_success :=
                          (if isSuccess then group_success s2 + 1 else group_success s2)\<rparr>)
         else s1)"

definition dash_init :: DashState where
  "dash_init = \<lparr>finalizedCount = 0, successCount = 0, failureCount = 0, neutralCount = 0,
                gov_total = 0, gov_success = 0, group_total = 0, group_success = 0\<rparr>"

definition dashboard_loop :: "'d Initiative_of list \<Rightarrow> DashState" where
  "dashboard_loop initiatives = fold dashboard_step initiatives dash_init"

definition calculateDashboardStats :: "'d Initiative_of list \<Rightarrow> DashboardStats option" where
  "calculateDashboardStats initiatives = do {
     let s = dashboard_loop initiatives;
     globalSuccessRate \<leftarrow>
       (if finalizedCount s > 0 then percent (successCount s) (finalizedCount s) else Some 0);
     govRate \<leftarrow> (if gov_total s > 0 then percent (gov_success s) (gov_total s) else Some 0);
     groupRate \<leftarrow>
       (if group_total s > 0 then percent (group_success s) (group_total s) else Some 0);
     Some \<lparr>globalSuccessRate = globalSuccessRate,
           breakdown =
             \<lparr>success = successCount s, failure = failureCount s, neutral = neutralCount s\<rparr>,
           authorEfficiency =
             \<lparr>gobierno =
                \<lparr>eff_total = gov_total s, eff_success = gov_success s, eff_rate = govRate\<rparr>,
              groups =
                \<lparr>eff_total = group_total s, eff_success = group_success s,
                 eff_rate = groupRate\<rparr>\<rparr>\<rparr>
   }"

section \<open>\<open>participationStats.ts\<close>: \<open>calculateParticipationStats\<close>\<close>

record 'd CriticalAbsence =
  ca_initiative :: "'d Initiative_of"
  margin :: int
  missing :: nat

record 'd BrokenBlock =
  bb_initiative :: "'d Initiative_of"
  party :: string
  details :: string

record PartyCount =
  pc_party :: string
  pc_count :: nat

record DeputyEntry =
  dep_name :: "string option"
  dep_party :: "string option"
  dep_count :: nat

record 'd ParticipationStats =
  globalCommitment :: int
  totalVoted :: int
  totalPossibleVotes :: int
  totalAbstentions :: int
  totalNoVotes :: int
  absenteeismRanking :: "PartyCount list"
  deputyRanking :: "DeputyEntry list"
  criticalAbsences :: "'d CriticalAbsence list"
  brokenBlocks :: "'d BrokenBlock list"

text \<open>The variables that the first \<open>forEach\<close> updates.\<close>

record 'd PState =
  st_totalPresent :: nat
  st_totalVoted :: nat
  st_totalAbstentions :: nat
  st_noVotesByParty :: tally
  st_criticalAbsences :: "'d CriticalAbsence list"
  st_brokenBlocks :: "'d BrokenBlock list"

definition pstate_init :: "'d PState" where
  "pstate_init = \<lparr>st_totalPresent = 0, st_totalVoted = 0, st_totalAbstentions = 0,
                  st_noVotesByParty = [], st_criticalAbsences = [], st_brokenBlocks = []\<rparr>"

text \<open>The guard of line 37: the initiative's \<open>totales\<close> and \<open>desglose\<close> when the vote
  exists and has both, \<open>None\<close> when the body returns at once.\<close>

definition qualifying :: "'d Initiative_of \<Rightarrow> (Totales \<times> Desglose) option" where
  "qualifying init =
     (case voting init of
        None \<Rightarrow> None
      | Some v \<Rightarrow>
          if \<not> exists v then None
          else (case result v of
                  None \<Rightarrow> None
                | Some r \<Rightarrow>
                    (case totales r of
                       None \<Rightarrow> None
                     | Some totals \<Rightarrow>
                         (case desglose r of None \<Rightarrow> None | Some d \<Rightarrow> Some (totals, d)))))"

definition votesCast :: "Totales \<Rightarrow> nat" where
  "votesCast totals =
     num_or (afavor totals) 0 + num_or (enContra totals) 0 + num_or (abstenciones totals) 0"

text \<open>Lines 56 to 60: \<open>noVotesByParty[party] = (noVotesByParty[party] || 0) + count\<close>.
  This is the sum for a party whose code is not \<open>inherited\<close>. For one whose code is,
  the source adds the count to a function or to the prototype object and stores the
  resulting text as the count; no theorem below reads the absences of such a party.\<close>

definition add_no_votes :: "tally option \<Rightarrow> tally \<Rightarrow> tally" where
  "add_no_votes src noVotesByParty =
     (case src of
        None \<Rightarrow> noVotesByParty
      | Some t \<Rightarrow>
          fold (\<lambda>(p, c) m. assign p (num_or (map_of m p) 0 + c) m) t noVotesByParty)"

text \<open>Lines 63 to 74.\<close>

definition add_critical ::
  "'d Initiative_of \<Rightarrow> Totales \<Rightarrow> 'd CriticalAbsence list \<Rightarrow> 'd CriticalAbsence list" where
  "add_critical init totals cas =
     (let miss = num_or (noVotan totals) 0
      in if miss > 0 then
           (let m = \<bar>int (num_or (afavor totals) 0) - int (num_or (enContra totals) 0)\<bar>
            in if int miss \<ge> m
               then cas @ [\<lparr>ca_initiative = init, margin = m, missing = miss\<rparr>]
               else cas)
         else cas)"

text \<open>Lines 78 to 92: the object \<open>partyVotes\<close> of one initiative. For a party whose
  code is \<open>inherited\<close> the test \<open>!partyVotes[party]\<close> of line 83 finds the inherited
  member and creates no entry, and line 85 sets a property of that member: the object
  \<open>partyVotes\<close> keeps its entries.\<close>

record PartyVotes =
  pv_yes :: nat
  pv_no :: nat
  pv_abs :: nat
  pv_no_vote :: nat

datatype Category = Cat_yes | Cat_no | Cat_abs | Cat_no_vote

definition add_votes :: "Category \<Rightarrow> nat \<Rightarrow> PartyVotes \<Rightarrow> PartyVotes" where
  "add_votes category c pv =
     (case category of
        Cat_yes \<Rightarrow> pv\<lparr>pv_yes := pv_yes pv + c\<rparr>
      | Cat_no \<Rightarrow> pv\<lparr>pv_no := pv_no pv + c\<rparr>
      | Cat_abs \<Rightarrow> pv\<lparr>pv_abs := pv_abs pv + c\<rparr>
      | Cat_no_vote \<Rightarrow> pv\<lparr>pv_no_vote := pv_no_vote pv + c\<rparr>)"

definition no_votes_yet :: PartyVotes where
  "no_votes_yet = \<lparr>pv_yes = 0, pv_no = 0, pv_abs = 0, pv_no_vote = 0\<rparr>"

definition countVotes ::
  "Category \<Rightarrow> tally option \<Rightarrow> (string \<times> PartyVotes) list \<Rightarrow> (string \<times> PartyVotes) list" where
  "countVotes category source partyVotes =
     (case source of
        None \<Rightarrow> partyVotes
      | Some t \<Rightarrow>
          fold (\<lambda>(p, c) pvs.
                  if inherited p then pvs
                  else assign p
                         (add_votes category c
                            (case map_of pvs p of None \<Rightarrow> no_votes_yet | Some pv \<Rightarrow> pv))
                         pvs)
               t partyVotes)"

definition party_tallies :: "Desglose \<Rightarrow> (string \<times> PartyVotes) list" where
  "party_tallies d =
     countVotes Cat_no_vote (desg_no_vote d)
       (countVotes Cat_abs (desg_abstention d)
          (countVotes Cat_no (desg_no d)
             (countVotes Cat_yes (desg_yes d) [])))"

text \<open>Lines 95 to 119 for one party: \<open>Some None\<close> when nothing is pushed,
  \<open>Some (Some details)\<close> when a broken block is.\<close>

definition maxVote :: "PartyVotes \<Rightarrow> nat" where
  "maxVote votes = max (pv_yes votes) (max (pv_no votes) (pv_abs votes))"

definition minors :: "PartyVotes \<Rightarrow> string list" where
  "minors votes =
     (if pv_yes votes > 0 \<and> pv_yes votes \<noteq> maxVote votes
        then [string_of_nat (pv_yes votes) @ '' S'' @ i_acute] else [])
     @ (if pv_no votes > 0 \<and> pv_no votes \<noteq> maxVote votes
        then [string_of_nat (pv_no votes) @ '' No''] else [])
     @ (if pv_abs votes > 0 \<and> pv_abs votes \<noteq> maxVote votes
        then [string_of_nat (pv_abs votes) @ '' Abs''] else [])
     @ (if pv_no_vote votes > 0 \<and> pv_no_vote votes \<noteq> maxVote votes
        then [string_of_nat (pv_no_vote votes) @ '' No Voto''] else [])"

definition details_text :: "PartyVotes \<Rightarrow> string" where
  "details_text votes =
     ''Mayor'' @ i_acute @ ''a vot'' @ o_acute @ '' ''
     @ (if pv_yes votes = maxVote votes then ''S'' @ i_acute
        else if pv_no votes = maxVote votes then ''No'' else ''Abs'')
     @ '', pero hubo: '' @ join_comma (minors votes)"

definition broken_details :: "PartyVotes \<Rightarrow> string option option" where
  "broken_details votes =
     (let totalPartyVotes = pv_yes votes + pv_no votes + pv_abs votes + pv_no_vote votes
      in if totalPartyVotes < 5 then Some None
         else do {
           consensusRatio \<leftarrow> js_div (of_nat (maxVote votes)) (of_nat totalPartyVotes);
           if consensusRatio > lit_0_8 \<and> consensusRatio < 1
           then (if length (minors votes) > 0 then Some (Some (details_text votes))
                 else Some None)
           else Some None
         })"

definition push_block ::
  "'d Initiative_of \<Rightarrow> string \<times> PartyVotes \<Rightarrow> 'd BrokenBlock list \<Rightarrow> 'd BrokenBlock list option" where
  "push_block init e bs =
     (case broken_details (snd e) of
        None \<Rightarrow> None
      | Some None \<Rightarrow> Some bs
      | Some (Some t) \<Rightarrow> Some (bs @ [\<lparr>bb_initiative = init, party = fst e, details = t\<rparr>]))"

text \<open>The body of the first \<open>forEach\<close>, lines 37 to 120.\<close>

definition participation_step :: "'d Initiative_of \<Rightarrow> 'd PState \<Rightarrow> 'd PState option" where
  "participation_step init s =
     (case qualifying init of
        None \<Rightarrow> Some s
      | Some (totals, d) \<Rightarrow> do {
          let present = num_or (presentes totals) 350;
          blocks \<leftarrow>
            fold_opt (push_block init) (own_entries (party_tallies d)) (st_brokenBlocks s);
          Some \<lparr>st_totalPresent = st_totalPresent s + present,
                st_totalVoted = st_totalVoted s + votesCast totals,
                st_totalAbstentions = st_totalAbstentions s + num_or (abstenciones totals) 0,
                st_noVotesByParty = add_no_votes (desg_no_vote d) (st_noVotesByParty s),
                st_criticalAbsences = add_critical init totals (st_criticalAbsences s),
                st_brokenBlocks = blocks\<rparr>
        })"

text \<open>The second \<open>forEach\<close>, lines 133 to 151, on deputy lists of the shape of the
  specification's data model. The identifier of a deputy without code and without name is
  \<open>undefined\<close>, which as a property key is the string \<open>"undefined"\<close>. For an
  \<open>inherited\<close> identifier the test of line 141 finds the inherited member, no entry is
  created, and line 149 counts on that member. Reading \<open>count\<close> of a missing entry
  would raise; that is \<open>None\<close>.\<close>

definition noVoteList :: "Initiative \<Rightarrow> Deputy list" where
  "noVoteList init =
     (case voting init of
        None \<Rightarrow> []
      | Some v \<Rightarrow>
          (case noVote v of
             Some l \<Rightarrow> l
           | None \<Rightarrow> (case missingDeputies v of Some l \<Rightarrow> l | None \<Rightarrow> [])))"

definition deputy_id :: "Deputy \<Rightarrow> string" where
  "deputy_id deputy =
     (let fallback = (case apellidosNombre deputy of None \<Rightarrow> ''undefined'' | Some n \<Rightarrow> n)
      in case codParlamentario deputy of
           None \<Rightarrow> fallback
         | Some c \<Rightarrow> if c = [] then fallback else c)"

definition new_entry :: "Deputy \<Rightarrow> DeputyEntry" where
  "new_entry deputy =
     (let isMixed =
            (case grupo deputy of
               None \<Rightarrow> False
             | Some g \<Rightarrow> g \<noteq> [] \<and> str_includes (toLowerCase g) ''mixto'')
      in \<lparr>dep_name = apellidosNombre deputy,
          dep_party =
            (if isMixed then Some ''Grupo Mixto''
             else (case formacion deputy of
                     None \<Rightarrow> grupo deputy
                   | Some f \<Rightarrow> if f = [] then grupo deputy else Some f)),
          dep_count = 0\<rparr>)"

definition deputy_step ::
  "Deputy \<Rightarrow> (string \<times> DeputyEntry) list \<Rightarrow> (string \<times> DeputyEntry) list option" where
  "deputy_step deputy m =
     (let ident = deputy_id deputy
      in if inherited ident then Some m
         else
           let m1 = (case map_of m ident of
                       None \<Rightarrow> assign ident (new_entry deputy) m
                     | Some e \<Rightarrow> m)
           in case map_of m1 ident of
                None \<Rightarrow> None
              | Some e \<Rightarrow> Some (assign ident (e\<lparr>dep_count := dep_count e + 1\<rparr>) m1))"

definition calculateParticipationStats ::
  "Initiative list \<Rightarrow> Deputy list ParticipationStats option" where
  "calculateParticipationStats initiatives = do {
     s \<leftarrow> fold_opt participation_step initiatives pstate_init;
     let ranking =
           take 5 (sort_cmp (\<lambda>a b. int (pc_count b) - int (pc_count a))
                     (map (\<lambda>(p, c). \<lparr>pc_party = p, pc_count = c\<rparr>)
                        (own_entries (st_noVotesByParty s))));
     noVotesByDeputy \<leftarrow>
       fold_opt (\<lambda>init m. fold_opt deputy_step (noVoteList init) m) initiatives [];
     let deputies =
           take 10 (sort_cmp (\<lambda>a b. int (dep_count b) - int (dep_count a))
                      (map snd (own_entries noVotesByDeputy)));
     let totalSeatsOpportunity = length initiatives * 350;
     commitment \<leftarrow>
       (if totalSeatsOpportunity > 0 then percent (st_totalVoted s) totalSeatsOpportunity
        else Some 0);
     let noVotes = int totalSeatsOpportunity - int (st_totalVoted s);
     Some \<lparr>globalCommitment = commitment,
           totalVoted = int (st_totalVoted s),
           totalPossibleVotes = int totalSeatsOpportunity,
           totalAbstentions = int (st_totalAbstentions s),
           totalNoVotes = noVotes,
           absenteeismRanking = ranking,
           deputyRanking = deputies,
           criticalAbsences = take 3 (st_criticalAbsences s),
           brokenBlocks = take 3 (st_brokenBlocks s)\<rparr>
   }"

subsection \<open>The same function on deputy lists read as \<open>any\<close>\<close>

text \<open>\<open>voting?.noVote || voting?.missingDeputies || []\<close>, line 137, and the call of
  \<open>forEach\<close> on it, line 139, which raises on a value that is no array: \<open>None\<close>.\<close>

definition noVoteList_any :: "Initiative_any \<Rightarrow> any_element list option" where
  "noVoteList_any init =
     (case voting init of
        None \<Rightarrow> Some []
      | Some v \<Rightarrow>
          (case noVote v of
             Some Not_array \<Rightarrow> None
           | Some (Array l) \<Rightarrow> Some l
           | None \<Rightarrow>
               (case missingDeputies v of
                  Some Not_array \<Rightarrow> None
                | Some (Array l) \<Rightarrow> Some l
                | None \<Rightarrow> Some [])))"

definition deputy_id_any :: "Deputy_any \<Rightarrow> string" where
  "deputy_id_any deputy =
     (let fallback = (case any_apellidosNombre deputy of None \<Rightarrow> ''undefined'' | Some n \<Rightarrow> n)
      in case any_codParlamentario deputy of
           None \<Rightarrow> fallback
         | Some c \<Rightarrow> if c = [] then fallback else c)"

text \<open>Lines 142 to 147. \<open>deputy.grupo.toLowerCase()\<close> raises when \<open>grupo\<close> is truthy
  and no string.\<close>

definition new_entry_any :: "Deputy_any \<Rightarrow> DeputyEntry option" where
  "new_entry_any deputy =
     (case any_grupo deputy of
        Not_text \<Rightarrow> None
      | Absent \<Rightarrow>
          Some \<lparr>dep_name = any_apellidosNombre deputy,
                dep_party =
                  (case any_formacion deputy of
                     None \<Rightarrow> None
                   | Some f \<Rightarrow> if f = [] then None else Some f),
                dep_count = 0\<rparr>
      | Text g \<Rightarrow>
          let isMixed = (g \<noteq> [] \<and> str_includes (toLowerCase g) ''mixto'')
          in Some \<lparr>dep_name = any_apellidosNombre deputy,
                   dep_party =
                     (if isMixed then Some ''Grupo Mixto''
                      else (case any_formacion deputy of
                              None \<Rightarrow> Some g
                            | Some f \<Rightarrow> if f = [] then Some g else Some f)),
                   dep_count = 0\<rparr>)"

text \<open>The body of the inner \<open>forEach\<close>. Line 140 reads a property of the element, which
  raises when the element is \<open>null\<close> or \<open>undefined\<close>.\<close>

definition deputy_step_any ::
  "any_element \<Rightarrow> (string \<times> DeputyEntry) list \<Rightarrow> (string \<times> DeputyEntry) list option" where
  "deputy_step_any element m =
     (case element of
        Null \<Rightarrow> None
      | Object deputy \<Rightarrow>
          let ident = deputy_id_any deputy
          in if inherited ident then Some m
             else do {
               m1 \<leftarrow> (case map_of m ident of
                        None \<Rightarrow> map_option (\<lambda>e. assign ident e m) (new_entry_any deputy)
                      | Some e \<Rightarrow> Some m);
               (case map_of m1 ident of
                  None \<Rightarrow> None
                | Some e \<Rightarrow> Some (assign ident (e\<lparr>dep_count := dep_count e + 1\<rparr>) m1))
             })"

definition deputies_any ::
  "Initiative_any \<Rightarrow> (string \<times> DeputyEntry) list \<Rightarrow> (string \<times> DeputyEntry) list option" where
  "deputies_any init m =
     (case noVoteList_any init of None \<Rightarrow> None | Some l \<Rightarrow> fold_opt deputy_step_any l m)"

definition calculateParticipationStats_any ::
  "Initiative_any list \<Rightarrow> any_list ParticipationStats option" where
  "calculateParticipationStats_any initiatives = do {
     s \<leftarrow> fold_opt participation_step initiatives pstate_init;
     let ranking =
           take 5 (sort_cmp (\<lambda>a b. int (pc_count b) - int (pc_count a))
                     (map (\<lambda>(p, c). \<lparr>pc_party = p, pc_count = c\<rparr>)
                        (own_entries (st_noVotesByParty s))));
     noVotesByDeputy \<leftarrow> fold_opt deputies_any initiatives [];
     let deputies =
           take 10 (sort_cmp (\<lambda>a b. int (dep_count b) - int (dep_count a))
                      (map snd (own_entries noVotesByDeputy)));
     let totalSeatsOpportunity = length initiatives * 350;
     commitment \<leftarrow>
       (if totalSeatsOpportunity > 0 then percent (st_totalVoted s) totalSeatsOpportunity
        else Some 0);
     let noVotes = int totalSeatsOpportunity - int (st_totalVoted s);
     Some \<lparr>globalCommitment = commitment,
           totalVoted = int (st_totalVoted s),
           totalPossibleVotes = int totalSeatsOpportunity,
           totalAbstentions = int (st_totalAbstentions s),
           totalNoVotes = noVotes,
           absenteeismRanking = ranking,
           deputyRanking = deputies,
           criticalAbsences = take 3 (st_criticalAbsences s),
           brokenBlocks = take 3 (st_brokenBlocks s)\<rparr>
   }"

text \<open>The inputs of the shape of the data model among those read as \<open>any\<close>: a deputy
  record as an object, a list of records as an array of objects; and the result for such
  an input, which holds the initiatives in this form.\<close>

definition deputy_any :: "Deputy \<Rightarrow> Deputy_any" where
  "deputy_any deputy =
     \<lparr>any_codParlamentario = codParlamentario deputy,
      any_apellidosNombre = apellidosNombre deputy,
      any_grupo = (case grupo deputy of None \<Rightarrow> Absent | Some g \<Rightarrow> Text g),
      any_formacion = formacion deputy\<rparr>"

definition list_any :: "Deputy list \<Rightarrow> any_list" where
  "list_any l = Array (map (\<lambda>deputy. Object (deputy_any deputy)) l)"

definition initiative_any :: "Initiative \<Rightarrow> Initiative_any" where
  "initiative_any init =
     \<lparr>resultado_tram = resultado_tram init, autor = autor init, titulo = titulo init,
      voting =
        map_option
          (\<lambda>v. \<lparr>exists = exists v, yes = yes v, no = no v, result = result v,
                noVote = map_option list_any (noVote v),
                missingDeputies = map_option list_any (missingDeputies v)\<rparr>)
          (voting init)\<rparr>"

definition stats_any :: "Deputy list ParticipationStats \<Rightarrow> any_list ParticipationStats" where
  "stats_any r =
     \<lparr>globalCommitment = globalCommitment r,
      totalVoted = totalVoted r,
      totalPossibleVotes = totalPossibleVotes r,
      totalAbstentions = totalAbstentions r,
      totalNoVotes = totalNoVotes r,
      absenteeismRanking = absenteeismRanking r,
      deputyRanking = deputyRanking r,
      criticalAbsences =
        map (\<lambda>c. \<lparr>ca_initiative = initiative_any (ca_initiative c), margin = margin c,
                   missing = missing c\<rparr>)
          (criticalAbsences r),
      brokenBlocks =
        map (\<lambda>b. \<lparr>bb_initiative = initiative_any (bb_initiative b), party = party b,
                   details = details b\<rparr>)
          (brokenBlocks r)\<rparr>"

definition state_any :: "Deputy list PState \<Rightarrow> any_list PState" where
  "state_any s =
     \<lparr>st_totalPresent = st_totalPresent s,
      st_totalVoted = st_totalVoted s,
      st_totalAbstentions = st_totalAbstentions s,
      st_noVotesByParty = st_noVotesByParty s,
      st_criticalAbsences =
        map (\<lambda>c. \<lparr>ca_initiative = initiative_any (ca_initiative c), margin = margin c,
                   missing = missing c\<rparr>)
          (st_criticalAbsences s),
      st_brokenBlocks =
        map (\<lambda>b. \<lparr>bb_initiative = initiative_any (bb_initiative b), party = party b,
                   details = details b\<rparr>)
          (st_brokenBlocks s)\<rparr>"

section \<open>Notions of the specification\<close>

subsection \<open>Consensus\<close>

text \<open>The Yes and No counts that \<open>calculateConsensus\<close> reads, after its \<open>|| 0\<close>.\<close>

definition yes_votes :: "'d Initiative_of \<Rightarrow> nat" where
  "yes_votes i = (case voting i of None \<Rightarrow> 0 | Some v \<Rightarrow> num_or (yes v) 0)"

definition no_votes :: "'d Initiative_of \<Rightarrow> nat" where
  "no_votes i = (case voting i of None \<Rightarrow> 0 | Some v \<Rightarrow> num_or (no v) 0)"

text \<open>The specification's \<open>round(100 * a / b)\<close>, on the exact quotient, a tie going up
  as \<open>Math.round\<close> sends it.\<close>

definition exact_round_percent :: "nat \<Rightarrow> nat \<Rightarrow> int" where
  "exact_round_percent a b = \<lfloor>100 * of_nat a / (of_nat b :: rat) + 1/2\<rfloor>"

text \<open>\<open>100 * a / b\<close> lies exactly half-way between two integers.\<close>

definition half_way :: "nat \<Rightarrow> nat \<Rightarrow> bool" where
  "half_way a b = ((200 * a + b) mod (2 * b) = 0)"

text \<open>\<open>r\<close> is an integer nearest to \<open>100 * a / b\<close>: \<open>\<bar>r - 100 * a / b\<bar> \<le> 1/2\<close>, cleared of
  the denominator.\<close>

definition nearest_percent :: "int \<Rightarrow> nat \<Rightarrow> nat \<Rightarrow> bool" where
  "nearest_percent r a b = (2 * \<bar>r * int b - 100 * int a\<bar> \<le> int b)"

text \<open>The label policy as section 4.1 of the specification lists it, five rules in
  priority order.\<close>

definition label_by_priority :: "int \<Rightarrow> nat \<Rightarrow> Label \<times> string" where
  "label_by_priority ci n =
     (if ci = 100 \<and> n = 0 then (Unanimidad, ''#10B981'')
      else if 80 \<le> ci then (Gran_Acuerdo, ''#34D399'')
      else if 45 \<le> ci \<and> ci \<le> 55 then (Ajustada, ''#F59E0B'')
      else if ci < 45 then (Ajustada, ''#EF4444'')
      else (Division, ''#FBBF24''))"

text \<open>The label ordering of the monotonicity property: Unanimous above Strong Agreement
  above all the others.\<close>

definition label_rank :: "Label \<Rightarrow> nat" where
  "label_rank l = (case l of Unanimidad \<Rightarrow> 2 | Gran_Acuerdo \<Rightarrow> 1 | _ \<Rightarrow> 0)"

definition yes_ratio :: "'d Initiative_of \<Rightarrow> rat" where
  "yes_ratio i = of_nat (yes_votes i) / of_nat (yes_votes i + no_votes i)"

subsection \<open>Affinity\<close>

text \<open>The actor codes of one category of a breakdown: the keys of the object.\<close>

definition actor_codes :: "tally option \<Rightarrow> string set" where
  "actor_codes src = (case src of None \<Rightarrow> {} | Some t \<Rightarrow> fst ` set t)"

text \<open>An initiative counts towards the denominator when it has a breakdown in which both
  actors have a determinable vote; it is a match when the two votes are the same.\<close>

definition comparable :: "string \<Rightarrow> string \<Rightarrow> 'd Initiative_of \<Rightarrow> bool" where
  "comparable targetCode referenceCode init =
     (case voted_desglose init of
        None \<Rightarrow> False
      | Some d \<Rightarrow> vote_of d referenceCode \<noteq> [] \<and> vote_of d targetCode \<noteq> [])"

definition same_vote :: "string \<Rightarrow> string \<Rightarrow> 'd Initiative_of \<Rightarrow> bool" where
  "same_vote targetCode referenceCode init =
     (case voted_desglose init of
        None \<Rightarrow> False
      | Some d \<Rightarrow> vote_of d referenceCode = vote_of d targetCode)"

definition comparisons :: "'d Initiative_of list \<Rightarrow> string \<Rightarrow> string \<Rightarrow> nat" where
  "comparisons initiatives targetCode referenceCode =
     length (filter (comparable targetCode referenceCode) initiatives)"

definition matches :: "'d Initiative_of list \<Rightarrow> string \<Rightarrow> string \<Rightarrow> nat" where
  "matches initiatives targetCode referenceCode =
     length (filter (\<lambda>i. comparable targetCode referenceCode i \<and> same_vote targetCode referenceCode i)
               initiatives)"

subsection \<open>Outcomes\<close>

text \<open>The status-to-category mapping of section 4.3: substring tests on the status, in
  this order, the first match deciding.\<close>

datatype Outcome = Success | Failure | Neutral | Not_finalized

definition outcome :: "'d Initiative_of \<Rightarrow> Outcome" where
  "outcome init =
     (let status = str_or_empty (resultado_tram init)
      in if sublist Aprobado status \<or> sublist Convalidado status then Success
         else if sublist Rechazado status \<or> sublist Derogado status then Failure
         else if sublist Retirado status \<or> sublist Decaido status then Neutral
         else Not_finalized)"

definition count_outcome :: "Outcome \<Rightarrow> 'd Initiative_of list \<Rightarrow> nat" where
  "count_outcome oc initiatives = length (filter (\<lambda>i. outcome i = oc) initiatives)"

subsection \<open>Participation\<close>

text \<open>What one initiative adds to the totals: nothing when the guard of line 37 skips it.\<close>

definition cast_votes :: "'d Initiative_of \<Rightarrow> nat" where
  "cast_votes init = (case qualifying init of None \<Rightarrow> 0 | Some (totals, d) \<Rightarrow> votesCast totals)"

definition abstained :: "'d Initiative_of \<Rightarrow> nat" where
  "abstained init =
     (case qualifying init of None \<Rightarrow> 0 | Some (totals, d) \<Rightarrow> num_or (abstenciones totals) 0)"



text \<open>The broken blocks that one party, and one initiative, contribute.\<close>

definition party_block :: "'d Initiative_of \<Rightarrow> string \<times> PartyVotes \<Rightarrow> 'd BrokenBlock list" where
  "party_block init e =
     (case broken_details (snd e) of
        Some (Some t) \<Rightarrow> [\<lparr>bb_initiative = init, party = fst e, details = t\<rparr>]
      | _ \<Rightarrow> [])"

definition initiative_blocks :: "'d Initiative_of \<Rightarrow> 'd BrokenBlock list" where
  "initiative_blocks init =
     (case qualifying init of
        None \<Rightarrow> []
      | Some (totals, d) \<Rightarrow> concat (map (party_block init) (own_entries (party_tallies d))))"









text \<open>The deputy list that the second loop reads is an array of objects, none of them
  \<open>null\<close>, whose \<open>grupo\<close> is a string where it is present: the shape of the
  specification's data model.\<close>

definition deputy_records :: "Initiative_any \<Rightarrow> bool" where
  "deputy_records init =
     (case noVoteList_any init of
        None \<Rightarrow> False
      | Some l \<Rightarrow>
          list_all (\<lambda>x. case x of Null \<Rightarrow> False | Object deputy \<Rightarrow> any_grupo deputy \<noteq> Not_text) l)"

section \<open>Sample inputs\<close>

text \<open>An initiative that carries nothing but a vote of \<open>y\<close> Yes and \<open>n\<close> No.\<close>

definition vote_only :: "nat \<Rightarrow> nat \<Rightarrow> Initiative" where
  "vote_only y n =
     \<lparr>resultado_tram = None, autor = None, titulo = [],
      voting = Some \<lparr>exists = True, yes = Some y, no = Some n, result = None,
                     noVote = None, missingDeputies = None\<rparr>\<rparr>"

text \<open>An initiative whose vote exists and carries only a breakdown by actor.\<close>

definition desglose_only :: "tally option \<Rightarrow> tally option \<Rightarrow> tally option \<Rightarrow> Initiative" where
  "desglose_only y n a =
     \<lparr>resultado_tram = None, autor = None, titulo = [],
      voting = Some \<lparr>exists = True, yes = None, no = None,
                     result = Some \<lparr>totales = None,
                       desglose = Some \<lparr>desg_yes = y, desg_no = n, desg_abstention = a,
                                        desg_no_vote = None\<rparr>\<rparr>,
                     noVote = None, missingDeputies = None\<rparr>\<rparr>"

text \<open>Two such initiatives: the actors GS and GP both in Yes; GS in Yes and GP in No.\<close>

definition both_yes :: Initiative where
  "both_yes = desglose_only (Some [(''GS'', 120), (''GP'', 89)]) None None"

definition ref_yes_target_no :: Initiative where
  "ref_yes_target_no = desglose_only (Some [(''GS'', 120)]) (Some [(''GP'', 89)]) None"

text \<open>An initiative that carries nothing but a status.\<close>

definition status_only :: "string \<Rightarrow> Initiative" where
  "status_only s = \<lparr>resultado_tram = Some s, autor = None, titulo = [], voting = None\<rparr>"

text \<open>An initiative whose vote exists and has totals of 10 in favour, 5 against and 3
  abstentions, but no breakdown by party; and one that has both.\<close>

definition sample_totals :: Totales where
  "sample_totals = \<lparr>afavor = Some 10, enContra = Some 5, abstenciones = Some 3,
                     presentes = None, noVotan = Some 6\<rparr>"

definition totals_only :: Initiative where
  "totals_only =
     \<lparr>resultado_tram = None, autor = None, titulo = [],
      voting = Some \<lparr>exists = True, yes = Some 10, no = Some 5,
                     result = Some \<lparr>totales = Some sample_totals, desglose = None\<rparr>,
                     noVote = None, missingDeputies = None\<rparr>\<rparr>"

definition sample_desglose :: Desglose where
  "sample_desglose = \<lparr>desg_yes = Some [(''GS'', 9)], desg_no = Some [(''GP'', 5)],
                       desg_abstention = Some [(''GV'', 3)], desg_no_vote = Some [(''GS'', 2)]\<rparr>"

definition totals_and_desglose :: Initiative where
  "totals_and_desglose =
     \<lparr>resultado_tram = None, autor = None, titulo = [],
      voting = Some \<lparr>exists = True, yes = Some 10, no = Some 5,
                     result = Some \<lparr>totales = Some sample_totals,
                                    desglose = Some sample_desglose\<rparr>,
                     noVote = None, missingDeputies = None\<rparr>\<rparr>"

text \<open>An initiative with no field at all.\<close>

definition bare :: Initiative where
  "bare = \<lparr>resultado_tram = None, autor = None, titulo = [], voting = None\<rparr>"

text \<open>A voted initiative with a title.\<close>

definition titled :: "string \<Rightarrow> nat \<Rightarrow> nat \<Rightarrow> Initiative" where
  "titled t y n =
     \<lparr>resultado_tram = None, autor = None, titulo = t,
      voting = Some \<lparr>exists = True, yes = Some y, no = Some n, result = None,
                     noVote = None, missingDeputies = None\<rparr>\<rparr>"

text \<open>Eight initiatives: seven voted, with indices 90, 50, 90, 100, 57, 10 and 60, and
  one whose vote does not exist.\<close>

definition eight_initiatives :: "Initiative list" where
  "eight_initiatives =
     [titled ''A'' 90 10, titled ''B'' 50 50, titled ''C'' 90 10, titled ''D'' 100 0,
      titled ''E'' 23 17, titled ''F'' 10 90, bare, titled ''H'' 60 40]"

text \<open>An initiative with counts whose vote does not exist; and one whose breakdown has
  two parties, \<open>GS\<close> with 81 Yes and 19 No and a party with the code \<open>7\<close> with 18 Yes
  and 2 No.\<close>

definition unvoted :: Initiative where
  "unvoted =
     \<lparr>resultado_tram = None, autor = None, titulo = ''U'',
      voting = Some \<lparr>exists = False, yes = Some 99, no = Some 1, result = None,
                     noVote = None, missingDeputies = None\<rparr>\<rparr>"


text \<open>Initiatives whose deputy lists are read as \<open>any\<close>. One with nothing but a list
  \<open>missingDeputies\<close> holding \<open>null\<close>. Further below: one with a list \<open>noVote\<close> of three
  records, two of them of the same deputy; one with no field at all; and one with the vote
  and the totals of \<open>totals_and_desglose\<close>.\<close>

definition null_deputy :: Initiative_any where
  "null_deputy =
     \<lparr>resultado_tram = None, autor = None, titulo = [],
      voting = Some \<lparr>exists = False, yes = None, no = None, result = None,
                     noVote = None, missingDeputies = Some (Array [Null])\<rparr>\<rparr>"

text \<open>Two more of that kind: one whose \<open>noVote\<close> is no array, and one whose list
  \<open>noVote\<close> holds a deputy with a number for \<open>grupo\<close>.\<close>

definition no_array :: Initiative_any where
  "no_array =
     \<lparr>resultado_tram = None, autor = None, titulo = [],
      voting = Some \<lparr>exists = False, yes = None, no = None, result = None,
                     noVote = Some Not_array, missingDeputies = None\<rparr>\<rparr>"

definition odd_grupo :: Initiative_any where
  "odd_grupo =
     \<lparr>resultado_tram = None, autor = None, titulo = [],
      voting = Some \<lparr>exists = False, yes = None, no = None, result = None,
                     noVote = Some (Array [Object \<lparr>any_codParlamentario = Some ''102'',
                                      any_apellidosNombre = None, any_grupo = Not_text,
                                      any_formacion = None\<rparr>]),
                     missingDeputies = None\<rparr>\<rparr>"

text \<open>Two deputies, and initiatives with well-formed lists.\<close>

definition deputy_gs :: Deputy_any where
  "deputy_gs = \<lparr>any_codParlamentario = Some ''101'', any_apellidosNombre = Some ''Ruiz, Ana'',
                 any_grupo = Text ''GS'', any_formacion = None\<rparr>"

definition deputy_mixed :: Deputy_any where
  "deputy_mixed = \<lparr>any_codParlamentario = None, any_apellidosNombre = Some ''Sanz, Luis'',
                    any_grupo = Text ''Grupo Parlamentario Mixto'', any_formacion = Some ''UPN''\<rparr>"

definition three_absences :: Initiative_any where
  "three_absences =
     \<lparr>resultado_tram = Some ''Aprobado'', autor = Some ''Gobierno'', titulo = [],
      voting = Some \<lparr>exists = True, yes = Some 3, no = Some 1, result = None,
                     noVote = Some (Array [Object deputy_gs, Object deputy_mixed, Object deputy_gs]),
                     missingDeputies = None\<rparr>\<rparr>"

definition bare_any :: Initiative_any where
  "bare_any = \<lparr>resultado_tram = None, autor = None, titulo = [], voting = None\<rparr>"

definition totals_any :: Initiative_any where
  "totals_any =
     \<lparr>resultado_tram = None, autor = None, titulo = [],
      voting = Some \<lparr>exists = True, yes = Some 10, no = Some 5,
                     result = Some \<lparr>totales = Some sample_totals,
                                    desglose = Some sample_desglose\<rparr>,
                     noVote = None, missingDeputies = Some (Array [])\<rparr>\<rparr>"

section \<open>Rounding to a double: how far the result is from the exact value\<close>

lemma rnd_even_err: "\<bar>of_int (rnd_even x) - x\<bar> \<le> 1/2"
proof -
  have "of_int \<lfloor>x\<rfloor> \<le> x" "x < of_int \<lfloor>x\<rfloor> + 1" by linarith+
  then show ?thesis
    unfolding rnd_even_def Let_def by (auto simp: abs_le_iff)
qed

lemma rnd_even_nonneg: "0 \<le> x \<Longrightarrow> 0 \<le> rnd_even x"
  unfolding rnd_even_def Let_def by auto

lemma bitlen_powi:
  assumes "0 < n"
  shows "(2::rat) powi (bitlen n - 1) \<le> of_int n" "of_int n < (2::rat) powi (bitlen n)"
proof -
  from bitlen_bounds[OF assms] have a: "2 ^ nat (bitlen n - 1) \<le> n" and b: "n < 2 ^ nat (bitlen n)" by auto
  have p: "1 \<le> bitlen n" using assms bitlen_eq_zero_iff[of n] bitlen_nonneg[of n] by linarith
  have "(of_int (2 ^ nat (bitlen n - 1)) :: rat) \<le> of_int n" using a of_int_le_iff by blast
  then show "(2::rat) powi (bitlen n - 1) \<le> of_int n" using p by (simp add: power_int_def)
  have "(of_int n :: rat) < of_int (2 ^ nat (bitlen n))" using b of_int_less_iff by blast
  then show "of_int n < (2::rat) powi (bitlen n)" using p by (simp add: power_int_def)
qed

lemma ilog2_bounds:
  assumes "0 < x"
  shows "2 powi (ilog2 x) \<le> x" "x < 2 powi (ilog2 x + 1)"
proof -
  obtain n d where q: "quotient_of x = (n, d)" by (cases "quotient_of x")
  have d: "0 < d" using q quotient_of_denom_pos by blast
  have x: "x = of_int n / of_int d" using q quotient_of_div by blast
  have n: "0 < n" using assms d x by (simp add: zero_less_divide_iff)
  define k where "k = bitlen n - bitlen d"
  note bn = bitlen_powi[OF n] and bd = bitlen_powi[OF d]
  have dpos: "(0::rat) < of_int d" using d by simp
  have lo: "(2::rat) powi (k - 1) < x"
  proof -
    have "(2::rat) powi (k - 1) * of_int d < 2 powi (k - 1) * 2 powi (bitlen d)"
      using bd(2) by (simp)
    also have "\<dots> = 2 powi (bitlen n - 1)" by (simp add: k_def power_int_add[symmetric])
    also have "\<dots> \<le> of_int n" by (rule bn(1))
    finally show ?thesis using dpos by (simp add: x pos_less_divide_eq)
  qed
  have hi: "x < (2::rat) powi (k + 1)"
  proof -
    have "of_int n < (2::rat) powi (bitlen n)" by (rule bn(2))
    also have "\<dots> = 2 powi (k + 1) * 2 powi (bitlen d - 1)" by (simp add: k_def power_int_add[symmetric])
    also have "\<dots> \<le> 2 powi (k + 1) * of_int d" using bd(1) by simp
    finally show ?thesis using dpos by (simp add: x pos_divide_less_eq)
  qed
  have il: "ilog2 x = (if 2 powi k \<le> x then k else k - 1)"
    by (simp add: ilog2_def q k_def Let_def)
  show "2 powi (ilog2 x) \<le> x" using lo by (auto simp: il)
  show "x < 2 powi (ilog2 x + 1)" using hi by (auto simp: il)
qed

lemma fl_err:
  assumes "0 < x"
  shows "\<bar>fl x - x\<bar> \<le> x / 2 ^ 53"
proof -
  define e where "e = ilog2 x - 52"
  define s where "s = x / 2 powi e"
  define m where "m = rnd_even s"
  have pe: "(0::rat) < 2 powi e" by simp
  have flx: "fl x = of_int m * 2 powi e"
    using assms by (simp add: fl_def e_def s_def m_def Let_def)
  have xs: "x = s * 2 powi e" by (simp add: s_def)
  have "2 powi (e + 52) \<le> x" using ilog2_bounds(1)[OF assms] by (simp add: e_def)
  then have le: "2 powi e * 2 ^ 52 \<le> x" by (simp add: power_int_add)
  have "\<bar>fl x - x\<bar> = \<bar>of_int m - s\<bar> * 2 powi e"
    unfolding flx by (subst xs) (simp add: abs_mult left_diff_distrib[symmetric] del: of_int_diff)
  also have "\<dots> \<le> 1/2 * 2 powi e"
    using rnd_even_err[of s] pe unfolding m_def by (intro mult_right_mono) auto
  also have "\<dots> \<le> x / 2 ^ 53" using le by (simp add: field_simps)
  finally show ?thesis .
qed

lemma fl_nonneg: "0 \<le> x \<Longrightarrow> 0 \<le> fl x"
  unfolding fl_def Let_def
  by (auto intro!: mult_nonneg_nonneg rnd_even_nonneg divide_nonneg_nonneg simp: sgn_if)

lemma fl_zero: "fl 0 = 0" by (simp add: fl_def)

lemma fl_bounds:
  assumes "0 \<le> x"
  shows "x - x / 2 ^ 53 \<le> fl x" "fl x \<le> x + x / 2 ^ 53"
proof -
  have "\<bar>fl x - x\<bar> \<le> x / 2 ^ 53"
  proof (cases "x = 0")
    case True then show ?thesis by (simp add: fl_zero)
  next
    case False then show ?thesis using assms fl_err[of x] by simp
  qed
  then have "fl x - x \<le> x / 2 ^ 53" "- (fl x - x) \<le> x / 2 ^ 53" by (simp_all only: abs_le_iff)
  then show "x - x / 2 ^ 53 \<le> fl x" "fl x \<le> x + x / 2 ^ 53" by - linarith+
qed

lemma percent_double_err:
  fixes y :: rat
  assumes "0 \<le> y"
  shows "\<bar>fl (fl y * 100) - 100 * y\<bar> \<le> 300 * y / 2 ^ 53"
proof -
  define u :: rat where "u = 1 / 2 ^ 53"
  have u: "0 < u" "u \<le> 1" by (simp_all add: u_def)
  define q where "q = fl y"
  have q0: "0 \<le> q" using assms fl_nonneg q_def by simp
  have q1: "y - y * u \<le> q" "q \<le> y + y * u"
    using fl_bounds[OF assms] by (simp_all add: q_def u_def)
  have p1: "q * 100 - q * 100 * u \<le> fl (q * 100)" "fl (q * 100) \<le> q * 100 + q * 100 * u"
    using fl_bounds[of "q * 100"] q0 by (simp_all add: u_def)
  have qu: "q * u \<le> (y + y * u) * u" using q1(2) u(1) by (simp add: mult_right_mono)
  have yuu: "y * u * u \<le> y * u" using assms u by (simp add: mult_left_le mult_nonneg_nonneg)
  have "q * 100 * u \<le> 200 * y * u" using qu yuu by (simp add: algebra_simps)
  then have "\<bar>fl (q * 100) - 100 * y\<bar> \<le> 300 * y * u"
    using p1 q1 by (simp add: abs_le_iff algebra_simps)
  then show ?thesis by (simp add: q_def u_def)
qed

lemma percent_nearest:
  assumes a: "a < 2 ^ 40" and r: "percent a b = Some r"
  shows "2 * \<bar>r * int b - 100 * int a\<bar> \<le> int b"
proof -
  have b: "0 < b" using r by (auto simp: percent_def js_div_def split: if_splits)
  define y :: rat where "y = of_nat a / of_nat b"
  define p where "p = fl (fl y * 100)"
  have rp: "r = \<lfloor>p + 1/2\<rfloor>"
    using r b by (auto simp: percent_def js_div_def js_mul_def Math_round_def p_def y_def)
  have y0: "0 \<le> y" by (simp add: y_def)
  have bq: "(0::rat) < of_nat b" using b by simp
  have yb: "y * of_nat b = of_nat a" using b by (simp add: y_def)
  have "(600 * of_nat a :: rat) < 600 * 2 ^ 40"
    using a by (metis of_nat_less_iff of_nat_numeral of_nat_power mult_strict_left_mono zero_less_numeral)
  then have small: "600 * (of_nat a :: rat) / 2 ^ 53 < 1" by simp
  have "\<bar>p - 100 * y\<bar> \<le> 300 * y / 2 ^ 53" unfolding p_def by (rule percent_double_err[OF y0])
  then have "\<bar>p - 100 * y\<bar> * (2 * of_nat b) \<le> 300 * y / 2 ^ 53 * (2 * of_nat b)"
    using bq by (intro mult_right_mono) auto
  also have "\<dots> = 600 * (y * of_nat b) / 2 ^ 53" by simp
  also have "\<dots> < 1" using small by (simp only: yb)
  finally have e0: "\<bar>p - 100 * y\<bar> * (2 * of_nat b) < 1" .
  have "\<bar>p - 100 * y\<bar> * (2 * of_nat b) = \<bar>(p - 100 * y) * (2 * of_nat b)\<bar>"
    by (simp add: abs_mult)
  also have "(p - 100 * y) * (2 * of_nat b) = p * (2 * of_nat b) - 200 * (y * of_nat b)"
    by (simp add: algebra_simps)
  finally have e: "\<bar>p * (2 * of_nat b) - 200 * of_nat a\<bar> < 1"
    using e0 by (simp only: yb)
  have f1: "of_int r \<le> p + 1/2" and f2: "p + 1/2 < of_int r + 1" unfolding rp by linarith+
  have g1: "of_int r * (2 * of_nat b) \<le> (p + 1/2) * (2 * of_nat b)"
    using f1 bq by (intro mult_right_mono) auto
  have g2: "(p + 1/2) * (2 * of_nat b) < (of_int r + 1) * (2 * of_nat b)"
    using f2 bq by (intro mult_strict_right_mono) auto
  have h1: "(of_int (2 * r * int b) :: rat) < of_int (200 * int a + int b + 1)"
    using g1 e by (simp add: abs_less_iff algebra_simps)
  have h2: "(of_int (200 * int a + int b - 1) :: rat) < of_int (2 * r * int b + 2 * int b)"
    using g2 e by (simp add: abs_less_iff algebra_simps)
  from h1 have i1: "2 * r * int b < 200 * int a + int b + 1" by (simp only: of_int_less_iff)
  from h2 have i2: "200 * int a + int b - 1 < 2 * r * int b + 2 * int b" by (simp only: of_int_less_iff)
  define z where "z = r * int b"
  from i1 have j1: "2 * z < 200 * int a + int b + 1" by (simp add: z_def algebra_simps)
  from i2 have j2: "200 * int a + int b - 1 < 2 * z + 2 * int b" by (simp add: z_def algebra_simps)
  from j1 j2 have "2 * \<bar>z - 100 * int a\<bar> \<le> int b" by presburger
  then show ?thesis by (simp only: z_def)
qed






section \<open>\<open>calculateConsensus\<close>\<close>

lemma percent_Some: "0 < b \<Longrightarrow> \<exists>r. percent a b = Some r"
  by (simp add: percent_def js_div_def)

lemma percent_zero_denominator: "percent a 0 = None"
  by (simp add: percent_def js_div_def)

lemma exact_round_percent_div:
  assumes b: "0 < b"
  shows "exact_round_percent a b = (200 * int a + int b) div (2 * int b)"
proof -
  have "100 * of_nat a / (of_nat b :: rat) + 1/2 = of_int (200 * int a + int b) / of_int (2 * int b)"
    using b by (simp add: field_simps)
  then show ?thesis unfolding exact_round_percent_def by (simp only: floor_divide_of_int_eq)
qed

lemma nearest_not_half_way:
  assumes n: "nearest_percent r a b" and b: "0 < b" and h: "\<not> half_way a b"
  shows "r = exact_round_percent a b"
proof -
  note e = exact_round_percent_div[OF b, of a]
  define z where "z = r * int b"
  from n have "2 * \<bar>z - 100 * int a\<bar> \<le> int b" by (simp add: nearest_percent_def z_def)
  then have n1: "2 * z \<le> 200 * int a + int b" and n2: "200 * int a \<le> 2 * z + int b"
    by presburger+
  have "200 * int a \<noteq> 2 * z + int b"
  proof
    assume "200 * int a = 2 * z + int b"
    then have "200 * int a + int b = (r + 1) * (2 * int b)" by (simp add: z_def algebra_simps)
    then have "(200 * int a + int b) mod (2 * int b) = 0" by simp
    then have "int ((200 * a + b) mod (2 * b)) = 0" by (simp add: zmod_int)
    then show False using h by (simp add: half_way_def)
  qed
  with n2 have n3: "200 * int a + int b < 2 * z + 2 * int b" by linarith
  have "(200 * int a + int b) div (2 * int b) = r"
  proof (rule int_div_pos_eq[where r = "200 * int a + int b - 2 * z"])
    show "200 * int a + int b = 2 * int b * r + (200 * int a + int b - 2 * z)" by (simp add: z_def)
    show "0 \<le> 200 * int a + int b - 2 * z" using n1 by simp
    show "200 * int a + int b - 2 * z < 2 * int b" using n3 by simp
  qed
  then show ?thesis by (simp add: e)
qed

lemma classification_by_priority: "classification ci n = label_by_priority ci n"
  by (simp add: classification_def label_by_priority_def)

lemma calculateConsensus_no_vote:
  "\<not> voting_exists i \<or> yes_votes i + no_votes i = 0 \<Longrightarrow> calculateConsensus i = Some sin_votacion"
  by (auto simp: calculateConsensus_def voting_exists_def yes_votes_def no_votes_def Let_def
        split: option.splits)

lemma calculateConsensus_voted:
  assumes "voting_exists i" and "0 < yes_votes i + no_votes i"
  shows "\<exists>ci. percent (yes_votes i) (yes_votes i + no_votes i) = Some ci \<and>
     calculateConsensus i =
       Some \<lparr>consensusIndex = ci, label = fst (classification ci (no_votes i)),
             color = snd (classification ci (no_votes i))\<rparr>"
proof -
  obtain v where v: "voting i = Some v" "exists v"
    using assms(1) by (auto simp: voting_exists_def split: option.splits)
  define y where "y = num_or (yes v) 0"
  define n where "n = num_or (no v) 0"
  have yn: "yes_votes i = y" "no_votes i = n" by (simp_all add: yes_votes_def no_votes_def v y_def n_def)
  have pos: "0 < y + n" using assms(2) yn by simp
  obtain ci where ci: "percent y (y + n) = Some ci" using percent_Some[OF pos] by blast
  then obtain q where q: "js_div (of_nat y) (of_nat y + of_nat n) = Some q" "Math_round (js_mul q 100) = ci"
    by (auto simp: percent_def split: Option.bind_splits)
  have "calculateConsensus i =
       Some \<lparr>consensusIndex = ci, label = fst (classification ci n), color = snd (classification ci n)\<rparr>"
    using pos q by (auto simp: calculateConsensus_def v y_def[symmetric] n_def[symmetric] Let_def split_beta)
  then show ?thesis using ci yn by simp
qed

text \<open>
  Claim C1, as the code has it. \<open>calculateConsensus\<close> returns index 0 and the label
  "Sin Votacion" when the vote is absent, when \<open>exists\<close> is false and when
  \<open>yes + no = 0\<close>. Otherwise the index is \<open>Math.round\<close> of the double
  \<open>(yes / (yes + no)) * 100\<close>: an integer nearest to \<open>100 * yes / (yes + no)\<close>, and
  equal to \<open>round(100 * yes / (yes + no))\<close> whenever that value is not exactly half-way
  between two integers. The label and colour follow the five rules in priority order, and
  "Division" is the label exactly for the indices 56 to 79. Counts are below \<open>2^40\<close>.
\<close>

theorem C1_calculateConsensus:
  assumes "yes_votes i < 2 ^ 40"
  shows "\<exists>m. calculateConsensus i = Some m \<and>
     (if \<not> voting_exists i \<or> yes_votes i + no_votes i = 0
      then m = \<lparr>consensusIndex = 0, label = Sin_Votacion, color = ''#e5e7eb''\<rparr>
      else nearest_percent (consensusIndex m) (yes_votes i) (yes_votes i + no_votes i)
         \<and> (\<not> half_way (yes_votes i) (yes_votes i + no_votes i) \<longrightarrow>
              consensusIndex m = exact_round_percent (yes_votes i) (yes_votes i + no_votes i))
         \<and> (label m, color m) = label_by_priority (consensusIndex m) (no_votes i)
         \<and> (label m = Division \<longleftrightarrow> 56 \<le> consensusIndex m \<and> consensusIndex m \<le> 79))"
proof (cases "\<not> voting_exists i \<or> yes_votes i + no_votes i = 0")
  case True
  then show ?thesis
    using calculateConsensus_no_vote[OF True] by (simp add: sin_votacion_def)
next
  case False
  then have ex: "voting_exists i" and pos: "0 < yes_votes i + no_votes i" by auto
  from calculateConsensus_voted[OF ex pos] obtain ci where
    p: "percent (yes_votes i) (yes_votes i + no_votes i) = Some ci" and
    c: "calculateConsensus i =
       Some \<lparr>consensusIndex = ci, label = fst (classification ci (no_votes i)),
             color = snd (classification ci (no_votes i))\<rparr>" by blast
  have near: "nearest_percent ci (yes_votes i) (yes_votes i + no_votes i)"
    unfolding nearest_percent_def by (rule percent_nearest[OF assms p])
  have exact: "\<not> half_way (yes_votes i) (yes_votes i + no_votes i) \<longrightarrow>
      ci = exact_round_percent (yes_votes i) (yes_votes i + no_votes i)"
    using nearest_not_half_way[OF near pos] by blast
  have div: "fst (label_by_priority ci (no_votes i)) = Division \<longleftrightarrow> 56 \<le> ci \<and> ci \<le> 79"
    by (auto simp: label_by_priority_def)
  show ?thesis
    using False near exact div by (auto simp: c classification_by_priority)
qed

theorem C1_witness:
  "yes_votes (vote_only 90 10) < 2 ^ 40 \<and>
   calculateConsensus (vote_only 90 10) =
     Some \<lparr>consensusIndex = 90, label = Gran_Acuerdo, color = ''#34D399''\<rparr> \<and>
   voting_exists (vote_only 90 10) \<and>
   \<not> half_way (yes_votes (vote_only 90 10)) (yes_votes (vote_only 90 10) + no_votes (vote_only 90 10))"
proof -
  have h: "yes_votes (vote_only 90 10) < 2 ^ 40" by (simp add: yes_votes_def vote_only_def num_or_def)
  have v: "voting_exists (vote_only 90 10)" by (simp add: voting_exists_def vote_only_def)
  have y: "yes_votes (vote_only 90 10) = 90" "no_votes (vote_only 90 10) = 10"
    by (simp_all add: yes_votes_def no_votes_def vote_only_def num_or_def)
  have nh: "\<not> half_way 90 100" by (simp add: half_way_def)
  have e: "exact_round_percent 90 100 = 90" by (simp add: exact_round_percent_div)
  from C1_calculateConsensus[OF h] obtain m where
    m: "calculateConsensus (vote_only 90 10) = Some m"
       "consensusIndex m = 90" "(label m, color m) = label_by_priority (consensusIndex m) 10"
    using v nh e by (auto simp: y)
  from m(2,3) have "m = \<lparr>consensusIndex = 90, label = Gran_Acuerdo, color = ''#34D399''\<rparr>"
    by (cases m) (simp add: label_by_priority_def)
  then show ?thesis using h v nh m(1) by (simp add: y)
qed

text \<open>
  Claim C1 as written fails at 23 Yes and 17 No. The exact percentage is 57.5, which every
  rounding to nearest sends to 58. The double \<open>23 / 40\<close> is
  \<open>0x1.2666666666666p-1\<close>, below 0.575; its product with 100 rounds to the double
  \<open>0x1.cbfffffffffffp+5 = 57.49999999999999\<close>, and \<open>Math.round\<close> returns 57.
\<close>

theorem C1_counterexample:
  "calculateConsensus (vote_only 23 17) =
     Some \<lparr>consensusIndex = 57, label = Division, color = ''#FBBF24''\<rparr> \<and>
   exact_round_percent 23 (23 + 17) = 58"
proof -
  have p: "percent 23 40 = Some 57" by code_simp
  have v: "voting_exists (vote_only 23 17)" "yes_votes (vote_only 23 17) = 23" "no_votes (vote_only 23 17) = 17"
    by (simp_all add: voting_exists_def yes_votes_def no_votes_def vote_only_def num_or_def)
  from calculateConsensus_voted[of "vote_only 23 17"] p v
  have "calculateConsensus (vote_only 23 17) =
       Some \<lparr>consensusIndex = 57, label = fst (classification 57 17), color = snd (classification 57 17)\<rparr>"
    by simp
  moreover have "exact_round_percent 23 (23 + 17) = 58" by (simp add: exact_round_percent_div)
  ultimately show ?thesis by (simp add: classification_def)
qed

subsection \<open>Monotonicity of the label\<close>

lemma nearest_percent_rat:
  assumes b: "0 < b" and n: "nearest_percent r a b"
  shows "\<bar>of_int r - 100 * (of_nat a / of_nat b :: rat)\<bar> \<le> 1/2"
proof -
  have B: "(0::rat) < of_nat b" using b by simp
  from n have "(of_int (2 * \<bar>r * int b - 100 * int a\<bar>) :: rat) \<le> of_int (int b)"
    unfolding nearest_percent_def by (simp only: of_int_le_iff)
  then have "2 * \<bar>of_int r * of_nat b - 100 * (of_nat a :: rat)\<bar> \<le> of_nat b" by simp
  moreover have "of_int r * of_nat b - 100 * (of_nat a :: rat) = (of_int r - 100 * (of_nat a / of_nat b)) * of_nat b"
    using B by (simp add: field_simps)
  ultimately have "2 * (\<bar>of_int r - 100 * (of_nat a / of_nat b :: rat)\<bar> * of_nat b) \<le> of_nat b"
    using B by (simp add: abs_mult)
  then have "(2 * \<bar>of_int r - 100 * (of_nat a / of_nat b :: rat)\<bar>) * of_nat b \<le> 1 * of_nat b" by simp
  then have "2 * \<bar>of_int r - 100 * (of_nat a / of_nat b :: rat)\<bar> \<le> 1"
    using B by (simp only: mult_le_cancel_right_pos)
  then show ?thesis by simp
qed

lemma percent_ratio:
  "0 < b \<Longrightarrow> percent a b = Some (Math_round (fl (fl (of_nat a / of_nat b) * 100)))"
  by (simp add: percent_def js_div_def js_mul_def)

lemma label_rank_by_priority:
  "label_rank (fst (label_by_priority ci n)) = (if ci = 100 \<and> n = 0 then 2 else if 80 \<le> ci then 1 else 0)"
  by (simp add: label_by_priority_def label_rank_def)

lemma yes_ratio_le_one: "yes_ratio i \<le> 1"
  unfolding yes_ratio_def by (cases "yes_votes i + no_votes i = 0") (simp_all add: divide_le_eq)

lemma yes_ratio_one_iff:
  assumes "0 < yes_votes i + no_votes i"
  shows "yes_ratio i = 1 \<longleftrightarrow> no_votes i = 0"
proof -
  have "(of_nat (yes_votes i) :: rat) = of_nat (yes_votes i + no_votes i) \<longleftrightarrow> yes_votes i = yes_votes i + no_votes i"
    by (simp only: of_nat_eq_iff)
  moreover have "(of_nat (yes_votes i + no_votes i) :: rat) \<noteq> 0"
    using assms by (simp only: of_nat_eq_0_iff)
  ultimately show ?thesis unfolding yes_ratio_def by (simp only: divide_eq_1_iff) auto
qed

text \<open>
  Claim C9. Take two initiatives whose vote exists and has \<open>yes + no > 0\<close>, counts below
  \<open>2^40\<close>. If the ratio \<open>yes / (yes + no)\<close> of the first is at most that of the
  second, the label of the first is not stronger than the label of the second, in the
  ordering Unanimidad above Gran Acuerdo above all other labels. With counts that are
  natural numbers this needs no side condition on \<open>no = 0\<close>: a ratio of 1 already forces
  \<open>no = 0\<close>.
\<close>

theorem C9_monotone:
  assumes ea: "voting_exists a" and eb: "voting_exists b"
    and pa: "0 < yes_votes a + no_votes a" and pb: "0 < yes_votes b + no_votes b"
    and ba: "yes_votes a < 2 ^ 40" and bb: "yes_votes b < 2 ^ 40"
    and le: "yes_ratio a \<le> yes_ratio b"
  shows "\<exists>ma mb. calculateConsensus a = Some ma \<and> calculateConsensus b = Some mb \<and>
           label_rank (label ma) \<le> label_rank (label mb)"
proof -
  from calculateConsensus_voted[OF ea pa] obtain ca where
    pca: "percent (yes_votes a) (yes_votes a + no_votes a) = Some ca" and
    cca: "calculateConsensus a =
       Some \<lparr>consensusIndex = ca, label = fst (classification ca (no_votes a)),
             color = snd (classification ca (no_votes a))\<rparr>" by blast
  from calculateConsensus_voted[OF eb pb] obtain cb where
    pcb: "percent (yes_votes b) (yes_votes b + no_votes b) = Some cb" and
    ccb: "calculateConsensus b =
       Some \<lparr>consensusIndex = cb, label = fst (classification cb (no_votes b)),
             color = snd (classification cb (no_votes b))\<rparr>" by blast
  have "nearest_percent ca (yes_votes a) (yes_votes a + no_votes a)"
    unfolding nearest_percent_def by (rule percent_nearest[OF ba pca])
  then have na: "\<bar>of_int ca - 100 * yes_ratio a\<bar> \<le> 1/2"
    unfolding yes_ratio_def by (rule nearest_percent_rat[OF pa])
  have "nearest_percent cb (yes_votes b) (yes_votes b + no_votes b)"
    unfolding nearest_percent_def by (rule percent_nearest[OF bb pcb])
  then have nb: "\<bar>of_int cb - 100 * yes_ratio b\<bar> \<le> 1/2"
    unfolding yes_ratio_def by (rule nearest_percent_rat[OF pb])
  have fa: "ca = Math_round (fl (fl (yes_ratio a) * 100))"
    using pca percent_ratio[OF pa, of "yes_votes a"] by (simp add: yes_ratio_def)
  have fb: "cb = Math_round (fl (fl (yes_ratio b) * 100))"
    using pcb percent_ratio[OF pb, of "yes_votes b"] by (simp add: yes_ratio_def)
  define ra where "ra = label_rank (fst (label_by_priority ca (no_votes a)))"
  define rb where "rb = label_rank (fst (label_by_priority cb (no_votes b)))"
  have "ra \<le> rb"
  proof (cases "yes_ratio a = yes_ratio b")
    case True
    then have c: "ca = cb" using fa fb by simp
    have "no_votes a = 0 \<longleftrightarrow> no_votes b = 0"
      using yes_ratio_one_iff[OF pa] yes_ratio_one_iff[OF pb] True by simp
    then show ?thesis unfolding ra_def rb_def label_rank_by_priority c by simp
  next
    case False
    then have lt: "yes_ratio a < yes_ratio b" using le by simp
    have a1: "no_votes a \<noteq> 0"
      using yes_ratio_one_iff[OF pa] yes_ratio_le_one[of b] lt by auto
    have "80 \<le> cb" if "80 \<le> ca"
    proof -
      have "(80::rat) \<le> of_int ca" using that by linarith
      moreover have "of_int ca - 100 * yes_ratio a \<le> 1/2" "- (of_int cb - 100 * yes_ratio b) \<le> 1/2"
        using na nb by (simp_all only: abs_le_iff)
      ultimately have "(79::rat) < of_int cb" using lt by linarith
      then show ?thesis by linarith
    qed
    then show ?thesis unfolding ra_def rb_def label_rank_by_priority using a1 by auto
  qed
  then show ?thesis
    by (simp add: cca ccb classification_by_priority ra_def rb_def)
qed

theorem C9_witness:
  "voting_exists (vote_only 70 30) \<and> voting_exists (vote_only 90 10) \<and>
   0 < yes_votes (vote_only 70 30) + no_votes (vote_only 70 30) \<and>
   0 < yes_votes (vote_only 90 10) + no_votes (vote_only 90 10) \<and>
   yes_votes (vote_only 70 30) < 2 ^ 40 \<and> yes_votes (vote_only 90 10) < 2 ^ 40 \<and>
   yes_ratio (vote_only 70 30) \<le> yes_ratio (vote_only 90 10) \<and>
   (\<exists>ma mb. calculateConsensus (vote_only 70 30) = Some ma \<and>
        calculateConsensus (vote_only 90 10) = Some mb \<and>
        label_rank (label ma) \<le> label_rank (label mb))"
proof -
  have v: "voting_exists (vote_only 70 30)" "voting_exists (vote_only 90 10)"
    by (simp_all add: voting_exists_def vote_only_def)
  have y: "yes_votes (vote_only 70 30) = 70" "no_votes (vote_only 70 30) = 30"
       "yes_votes (vote_only 90 10) = 90" "no_votes (vote_only 90 10) = 10"
    by (simp_all add: yes_votes_def no_votes_def vote_only_def num_or_def)
  have p: "0 < yes_votes (vote_only 70 30) + no_votes (vote_only 70 30)"
          "0 < yes_votes (vote_only 90 10) + no_votes (vote_only 90 10)"
    by (simp_all add: y)
  have b: "yes_votes (vote_only 70 30) < 2 ^ 40" "yes_votes (vote_only 90 10) < 2 ^ 40"
    by (simp_all add: y)
  have r: "yes_ratio (vote_only 70 30) \<le> yes_ratio (vote_only 90 10)"
    by (simp add: yes_ratio_def y)
  from C9_monotone[OF v p b r] v p b r show ?thesis by blast
qed

section \<open>\<open>getAffinity\<close>\<close>

lemma str_includes_sublist: "str_includes s t \<longleftrightarrow> sublist t s"
  by (induction s) (auto simp: sublist_Cons_right)

lemma keys_some_iff: "keys_some src code \<longleftrightarrow> (\<exists>k \<in> actor_codes src. sublist code k)"
  by (cases src) (auto simp: keys_some_def actor_codes_def list_ex_iff str_includes_sublist)

lemma vote_of_first_match:
  "vote_of d code =
     (if \<exists>k \<in> actor_codes (desg_yes d). sublist code k then ''yes''
      else if \<exists>k \<in> actor_codes (desg_no d). sublist code k then ''no''
      else if \<exists>k \<in> actor_codes (desg_abstention d). sublist code k then ''abs''
      else [])"
  by (simp add: vote_of_def keys_some_iff)

lemma affinity_step_counts:
  "affinity_step t r i (m, c) =
     (m + (if comparable t r i \<and> same_vote t r i then 1 else 0),
      c + (if comparable t r i then 1 else 0))"
  by (cases "voted_desglose i")
     (auto simp: affinity_step_def comparable_def same_vote_def Let_def)

lemma affinity_fold:
  "fold (affinity_step t r) inits (m, c) =
     (m + length (filter (\<lambda>i. comparable t r i \<and> same_vote t r i) inits),
      c + length (filter (comparable t r) inits))"
  by (induction inits arbitrary: m c) (simp_all add: affinity_step_counts)

lemma getAffinity_counts:
  "getAffinity inits t r =
     (if comparisons inits t r > 0 then percent (matches inits t r) (comparisons inits t r)
      else Some 0)"
  by (simp add: getAffinity_def affinity_fold comparisons_def matches_def)

lemma matches_le_comparisons: "matches inits t r \<le> comparisons inits t r"
proof -
  have "length (filter (\<lambda>i. comparable t r i \<and> same_vote t r i) inits)
      = length (filter (same_vote t r) (filter (comparable t r) inits))"
    by (simp add: conj_commute)
  then show ?thesis unfolding matches_def comparisons_def by (simp only: length_filter_le)
qed

lemma comparisons_le_length: "comparisons inits t r \<le> length inits"
  by (simp add: comparisons_def)

text \<open>
  Claim C5, as the code has it. For every list of initiatives (shorter than \<open>2^32\<close>, as
  every array is) and all codes: an actor's vote in a breakdown is the first of Yes, No,
  Abstain one of whose actor codes contains the code as a substring; only initiatives with
  an existing vote and a breakdown in which both actors have a vote count as comparisons;
  a match is a comparison with equal votes. With no comparison the result is 0; otherwise
  it is \<open>Math.round\<close> of the double \<open>(matches / comparisons) * 100\<close>: an integer nearest
  to \<open>100 * matches / comparisons\<close>, equal to \<open>round(100 * matches / comparisons)\<close>
  whenever that value is not exactly half-way between two integers.
\<close>

theorem C5_getAffinity:
  assumes "length initiatives < 2 ^ 32"
  shows "(vote_of d code =
            (if \<exists>k \<in> actor_codes (desg_yes d). sublist code k then ''yes''
             else if \<exists>k \<in> actor_codes (desg_no d). sublist code k then ''no''
             else if \<exists>k \<in> actor_codes (desg_abstention d). sublist code k then ''abs''
             else [])) \<and>
         (\<exists>r. getAffinity initiatives targetCode referenceCode = Some r \<and>
            (if comparisons initiatives targetCode referenceCode = 0 then r = 0
             else nearest_percent r (matches initiatives targetCode referenceCode)
                    (comparisons initiatives targetCode referenceCode) \<and>
                  (\<not> half_way (matches initiatives targetCode referenceCode)
                       (comparisons initiatives targetCode referenceCode) \<longrightarrow>
                   r = exact_round_percent (matches initiatives targetCode referenceCode)
                         (comparisons initiatives targetCode referenceCode))))"
proof -
  define c where "c = comparisons initiatives targetCode referenceCode"
  define m where "m = matches initiatives targetCode referenceCode"
  have mb: "m < 2 ^ 40"
  proof -
    have "m \<le> length initiatives"
      unfolding m_def using matches_le_comparisons comparisons_le_length le_trans by blast
    also have "\<dots> < 2 ^ 32" by (rule assms)
    also have "(2::nat) ^ 32 \<le> 2 ^ 40" by simp
    finally show ?thesis .
  qed
  have "\<exists>r. getAffinity initiatives targetCode referenceCode = Some r \<and>
            (if c = 0 then r = 0
             else nearest_percent r m c \<and> (\<not> half_way m c \<longrightarrow> r = exact_round_percent m c))"
  proof (cases "c = 0")
    case True
    then show ?thesis by (simp add: getAffinity_counts c_def[symmetric])
  next
    case False
    then have pos: "0 < c" by simp
    obtain r where r: "percent m c = Some r" using percent_Some[OF pos] by blast
    have n: "nearest_percent r m c" unfolding nearest_percent_def by (rule percent_nearest[OF mb r])
    show ?thesis
      using False pos r n nearest_not_half_way[OF n pos]
      by (auto simp: getAffinity_counts c_def[symmetric] m_def[symmetric])
  qed
  then show ?thesis unfolding c_def m_def by (simp add: vote_of_first_match)
qed

lemma sample_votes:
  "comparable ''GP'' ''GS'' both_yes" "same_vote ''GP'' ''GS'' both_yes"
  "comparable ''GP'' ''GS'' ref_yes_target_no" "\<not> same_vote ''GP'' ''GS'' ref_yes_target_no"
  "\<not> comparable ''GP'' ''GS'' (vote_only y n)"
  by (simp_all add: comparable_def same_vote_def voted_desglose_def both_yes_def
        ref_yes_target_no_def desglose_only_def vote_only_def vote_of_def keys_some_def)

theorem C5_witness:
  "length [both_yes, ref_yes_target_no, vote_only 1 1] < 2 ^ 32 \<and>
   comparisons [both_yes, ref_yes_target_no, vote_only 1 1] ''GP'' ''GS'' = 2 \<and>
   matches [both_yes, ref_yes_target_no, vote_only 1 1] ''GP'' ''GS'' = 1 \<and>
   getAffinity [both_yes, ref_yes_target_no, vote_only 1 1] ''GP'' ''GS'' = Some 50"
proof -
  let ?xs = "[both_yes, ref_yes_target_no, vote_only 1 1]"
  have l: "length ?xs < 2 ^ 32" by simp
  have c: "comparisons ?xs ''GP'' ''GS'' = 2" by (simp add: comparisons_def sample_votes)
  have m: "matches ?xs ''GP'' ''GS'' = 1" by (simp add: matches_def sample_votes)
  have h: "\<not> half_way 1 2" by (simp add: half_way_def)
  have e: "exact_round_percent 1 2 = 50" by (simp add: exact_round_percent_div)
  from C5_getAffinity[OF l, of _ _ "''GP''" "''GS''"] have
    "\<exists>r. getAffinity ?xs ''GP'' ''GS'' = Some r \<and> r = 50"
    unfolding c m using h e by auto
  then show ?thesis using l c m by simp
qed

text \<open>
  Claim C5 as written fails on 40 comparable initiatives of which 23 match: the exact
  percentage 57.5 rounds to 58, the code returns 57.
\<close>

theorem C5_counterexample:
  "getAffinity (replicate 23 both_yes @ replicate 17 ref_yes_target_no) ''GP'' ''GS'' = Some 57 \<and>
   matches (replicate 23 both_yes @ replicate 17 ref_yes_target_no) ''GP'' ''GS'' = 23 \<and>
   comparisons (replicate 23 both_yes @ replicate 17 ref_yes_target_no) ''GP'' ''GS'' = 40 \<and>
   exact_round_percent 23 40 = 58"
proof -
  let ?xs = "replicate 23 both_yes @ replicate 17 ref_yes_target_no"
  have c: "comparisons ?xs ''GP'' ''GS'' = 40" by (simp add: comparisons_def sample_votes)
  have m: "matches ?xs ''GP'' ''GS'' = 23" by (simp add: matches_def sample_votes)
  have p: "percent 23 40 = Some 57" by code_simp
  have e: "exact_round_percent 23 40 = 58" by (simp add: exact_round_percent_div)
  show ?thesis using c m p e by (simp add: getAffinity_counts)
qed









section \<open>\<open>getRankings\<close>\<close>

lemma calculateConsensus_total: "\<exists>m. calculateConsensus i = Some m"
proof (cases "\<not> voting_exists i \<or> yes_votes i + no_votes i = 0")
  case True
  then show ?thesis using calculateConsensus_no_vote[of i] by simp
next
  case False
  then show ?thesis using calculateConsensus_voted[of i] by auto
qed

lemma details_total:
  "\<exists>details.
     map_opt (\<lambda>i. map_option (\<lambda>metric. (i, metric)) (calculateConsensus i)) xs = Some details \<and>
     map fst details = xs \<and>
     map (\<lambda>d. Some (snd d)) details = map calculateConsensus xs"
proof (induction xs)
  case Nil
  then show ?case by simp
next
  case (Cons x xs)
  obtain m where m: "calculateConsensus x = Some m" using calculateConsensus_total by blast
  from Cons obtain ds where
    "map_opt (\<lambda>i. map_option (\<lambda>metric. (i, metric)) (calculateConsensus i)) xs = Some ds"
    "map fst ds = xs" "map (\<lambda>d. Some (snd d)) ds = map calculateConsensus xs" by blast
  then show ?case using m by simp
qed

lemma insort_cmp_key:
  assumes "\<And>a b. cmp a b \<le> 0 \<longleftrightarrow> key a \<le> key b"
  shows "insort_cmp cmp x ys = insort_key key x ys"
  by (induction ys) (simp_all add: assms)

lemma sort_cmp_key:
  assumes "\<And>a b. cmp a b \<le> 0 \<longleftrightarrow> key a \<le> key b"
  shows "sort_cmp cmp xs = sort_key key xs"
proof -
  have "insort_cmp cmp = insort_key key"
    using insort_cmp_key[of cmp key, OF assms] by (intro ext)
  then show ?thesis by (simp add: sort_cmp_def sort_key_def)
qed

lemma sort_descending:
  "sort_cmp (\<lambda>a b. consensusIndex (snd b) - consensusIndex (snd a)) ds
     = sort_key (\<lambda>d. - consensusIndex (snd d)) ds"
  by (rule sort_cmp_key) auto

lemma sort_divisive:
  "sort_cmp (\<lambda>a b. \<bar>consensusIndex (snd a) - 50\<bar> - \<bar>consensusIndex (snd b) - 50\<bar>) ds
     = sort_key (\<lambda>d. \<bar>consensusIndex (snd d) - 50\<bar>) ds"
  by (rule sort_cmp_key) auto

lemma sorted_wrt_key: "sorted (map f xs) \<longleftrightarrow> sorted_wrt (\<lambda>a b. f a \<le> f b) xs"
  by (simp add: sorted_wrt_map)

text \<open>
  Claim C3. For every list of initiatives, \<open>getRankings\<close> keeps the initiatives whose
  vote exists, in input order, and pairs each with the metric that \<open>calculateConsensus\<close>
  gives it. \<open>topConsensus\<close> is the first 5 of the arrangement of these details that is in
  descending order of \<open>consensusIndex\<close> and keeps details of equal index in their input
  order; \<open>topDivisive\<close> is the first 5 of the arrangement in ascending order of
  \<open>|consensusIndex - 50|\<close>, stable in the same way. Each list has \<open>min 5 n\<close> entries for
  \<open>n\<close> qualifying initiatives: never more than 5, and exactly 5 from 5 qualifying
  initiatives on. The Yes and No counts of an initiative sum to less than \<open>2^53\<close>, so
  that the sum is the one the source computes.
\<close>

theorem C3_getRankings:
  assumes "\<forall>i \<in> set initiatives. yes_votes i + no_votes i < 2 ^ 53"
  shows "\<exists>details byIndex byDistance r.
     map fst details = filter voting_exists initiatives \<and>
     map (\<lambda>d. Some (snd d)) details = map calculateConsensus (filter voting_exists initiatives) \<and>
     mset byIndex = mset details \<and>
     sorted_wrt (\<lambda>a b. consensusIndex (snd a) \<ge> consensusIndex (snd b)) byIndex \<and>
     (\<forall>k. filter (\<lambda>d. consensusIndex (snd d) = k) byIndex
            = filter (\<lambda>d. consensusIndex (snd d) = k) details) \<and>
     mset byDistance = mset details \<and>
     sorted_wrt (\<lambda>a b. \<bar>consensusIndex (snd a) - 50\<bar> \<le> \<bar>consensusIndex (snd b) - 50\<bar>)
       byDistance \<and>
     (\<forall>k. filter (\<lambda>d. \<bar>consensusIndex (snd d) - 50\<bar> = k) byDistance
            = filter (\<lambda>d. \<bar>consensusIndex (snd d) - 50\<bar> = k) details) \<and>
     getRankings initiatives = Some r \<and>
     topConsensus r = take 5 byIndex \<and>
     topDivisive r = take 5 byDistance \<and>
     length (topConsensus r) = min 5 (length (filter voting_exists initiatives)) \<and>
     length (topDivisive r) = min 5 (length (filter voting_exists initiatives))"
proof -
  let ?voted = "filter voting_exists initiatives"
  let ?ci = "\<lambda>d :: 'a Initiative_of \<times> ConsensusMetric. consensusIndex (snd d)"
  from details_total[of ?voted] obtain details where
    d: "map_opt (\<lambda>i. map_option (\<lambda>metric. (i, metric)) (calculateConsensus i)) ?voted = Some details"
    and d1: "map fst details = ?voted"
    and d2: "map (\<lambda>d. Some (snd d)) details = map calculateConsensus ?voted" by blast
  define byIndex where "byIndex = sort_key (\<lambda>d. - ?ci d) details"
  define byDistance where "byDistance = sort_key (\<lambda>d. \<bar>?ci d - 50\<bar>) details"
  define r where "r = \<lparr>topConsensus = take 5 byIndex, topDivisive = take 5 byDistance\<rparr>"
  have len: "length details = length ?voted" using d1 by (metis length_map)
  have g: "getRankings initiatives = Some r"
    by (simp add: getRankings_def d sort_descending sort_divisive r_def byIndex_def byDistance_def)
  have i1: "mset byIndex = mset details" by (simp add: byIndex_def)
  have i2: "sorted_wrt (\<lambda>a b. ?ci a \<ge> ?ci b) byIndex"
    using sorted_sort_key[of "\<lambda>d. - ?ci d" details]
    by (simp add: byIndex_def sorted_wrt_key)
  have i3: "filter (\<lambda>d. ?ci d = k) byIndex = filter (\<lambda>d. ?ci d = k) details" for k
    using sort_key_stable[of "\<lambda>d. - ?ci d" "- k" details] by (simp add: byIndex_def)
  have j1: "mset byDistance = mset details" by (simp add: byDistance_def)
  have j2: "sorted_wrt (\<lambda>a b. \<bar>?ci a - 50\<bar> \<le> \<bar>?ci b - 50\<bar>) byDistance"
    using sorted_sort_key[of "\<lambda>d. \<bar>?ci d - 50\<bar>" details]
    by (simp add: byDistance_def sorted_wrt_key)
  have j3: "filter (\<lambda>d. \<bar>?ci d - 50\<bar> = k) byDistance = filter (\<lambda>d. \<bar>?ci d - 50\<bar> = k) details" for k
    using sort_key_stable[of "\<lambda>d. \<bar>?ci d - 50\<bar>" k details] by (simp add: byDistance_def)
  have l1: "length (topConsensus r) = min 5 (length ?voted)"
    by (simp add: r_def byIndex_def len min.commute)
  have l2: "length (topDivisive r) = min 5 (length ?voted)"
    by (simp add: r_def byDistance_def len min.commute)
  have t: "topConsensus r = take 5 byIndex" "topDivisive r = take 5 byDistance" by (simp_all add: r_def)
  show ?thesis
    apply (rule exI[where x = details], rule exI[where x = byIndex],
           rule exI[where x = byDistance], rule exI[where x = r])
    using d1 d2 i1 i2 i3 j1 j2 j3 g t l1 l2 by (intro conjI allI)
qed



text \<open>
  On the eight sample initiatives: D (index 100) comes first, A and C (both 90) follow in
  their input order, then H (60) and E (57). Nearest to 50 are B (50), E (57) and H (60);
  of A, C and F, all at distance 40, the first two in input order fill the list.
\<close>

lemma titled_facts:
  "voting_exists (titled t y n)" "yes_votes (titled t y n) = y" "no_votes (titled t y n) = n"
  "titulo (titled t y n) = t"
  by (simp_all add: voting_exists_def yes_votes_def no_votes_def titled_def num_or_def)

lemma titled_consensus:
  assumes "percent y (y + n) = Some ci" and "0 < y + n"
  shows "calculateConsensus (titled t y n) =
     Some \<lparr>consensusIndex = ci, label = fst (classification ci n),
           color = snd (classification ci n)\<rparr>"
  using calculateConsensus_voted[of "titled t y n"] assms by (simp add: titled_facts)


lemma sample_consensus:
  "calculateConsensus (titled t 90 10)
     = Some \<lparr>consensusIndex = 90, label = Gran_Acuerdo, color = ''#34D399''\<rparr>"
  "calculateConsensus (titled t 50 50)
     = Some \<lparr>consensusIndex = 50, label = Ajustada, color = ''#F59E0B''\<rparr>"
  "calculateConsensus (titled t 100 0)
     = Some \<lparr>consensusIndex = 100, label = Unanimidad, color = ''#10B981''\<rparr>"
  "calculateConsensus (titled t 23 17)
     = Some \<lparr>consensusIndex = 57, label = Division, color = ''#FBBF24''\<rparr>"
  "calculateConsensus (titled t 10 90)
     = Some \<lparr>consensusIndex = 10, label = Ajustada, color = ''#EF4444''\<rparr>"
  "calculateConsensus (titled t 60 40)
     = Some \<lparr>consensusIndex = 60, label = Division, color = ''#FBBF24''\<rparr>"
proof -
  have p: "percent 90 (90 + 10) = Some 90" "percent 50 (50 + 50) = Some 50"
    "percent 100 (100 + 0) = Some 100" "percent 23 (23 + 17) = Some 57"
    "percent 10 (10 + 90) = Some 10" "percent 60 (60 + 40) = Some 60"
    by code_simp+
  show "calculateConsensus (titled t 90 10)
     = Some \<lparr>consensusIndex = 90, label = Gran_Acuerdo, color = ''#34D399''\<rparr>"
    using titled_consensus[OF p(1)] by (simp add: classification_def)
  show "calculateConsensus (titled t 50 50)
     = Some \<lparr>consensusIndex = 50, label = Ajustada, color = ''#F59E0B''\<rparr>"
    using titled_consensus[OF p(2)] by (simp add: classification_def)
  show "calculateConsensus (titled t 100 0)
     = Some \<lparr>consensusIndex = 100, label = Unanimidad, color = ''#10B981''\<rparr>"
    using titled_consensus[OF p(3)] by (simp add: classification_def)
  show "calculateConsensus (titled t 23 17)
     = Some \<lparr>consensusIndex = 57, label = Division, color = ''#FBBF24''\<rparr>"
    using titled_consensus[OF p(4)] by (simp add: classification_def)
  show "calculateConsensus (titled t 10 90)
     = Some \<lparr>consensusIndex = 10, label = Ajustada, color = ''#EF4444''\<rparr>"
    using titled_consensus[OF p(5)] by (simp add: classification_def)
  show "calculateConsensus (titled t 60 40)
     = Some \<lparr>consensusIndex = 60, label = Division, color = ''#FBBF24''\<rparr>"
    using titled_consensus[OF p(6)] by (simp add: classification_def)
qed

lemma eight_voted:
  "filter voting_exists eight_initiatives =
     [titled ''A'' 90 10, titled ''B'' 50 50, titled ''C'' 90 10, titled ''D'' 100 0,
      titled ''E'' 23 17, titled ''F'' 10 90, titled ''H'' 60 40]"
proof -
  have "\<not> voting_exists bare" by (simp add: voting_exists_def bare_def)
  then show ?thesis by (simp add: eight_initiatives_def titled_facts)
qed

lemma unvoted_facts:
  "\<not> voting_exists unvoted" "yes_votes unvoted + no_votes unvoted = 100"
  by (simp_all add: voting_exists_def yes_votes_def no_votes_def unvoted_def num_or_def)

theorem C3_witness:
  "list_all (\<lambda>i. yes_votes i + no_votes i < 2 ^ 53) eight_initiatives \<and>
   (\<exists>r. getRankings eight_initiatives = Some r \<and>
      map (\<lambda>d. (titulo (fst d), consensusIndex (snd d))) (topConsensus r)
        = [(''D'', 100), (''A'', 90), (''C'', 90), (''H'', 60), (''E'', 57)] \<and>
      map (\<lambda>d. (titulo (fst d), consensusIndex (snd d))) (topDivisive r)
        = [(''B'', 50), (''E'', 57), (''H'', 60), (''A'', 90), (''C'', 90)]) \<and>
   list_all (\<lambda>i. yes_votes i + no_votes i < 2 ^ 53) [unvoted, titled ''A'' 90 10, bare] \<and>
   (\<exists>r. getRankings [unvoted, titled ''A'' 90 10, bare] = Some r \<and>
      map fst (topConsensus r) = [titled ''A'' 90 10] \<and>
      map fst (topDivisive r) = [titled ''A'' 90 10])"
proof -
  have b: "yes_votes bare + no_votes bare = 0" "\<not> voting_exists bare"
    by (simp_all add: yes_votes_def no_votes_def voting_exists_def bare_def)
  have h: "\<forall>i \<in> set eight_initiatives. yes_votes i + no_votes i < 2 ^ 53"
    by (simp add: eight_initiatives_def titled_facts b)
  have g: "map_option (\<lambda>r. (map (\<lambda>d. (titulo (fst d), consensusIndex (snd d))) (topConsensus r),
                              map (\<lambda>d. (titulo (fst d), consensusIndex (snd d))) (topDivisive r)))
             (getRankings eight_initiatives)
           = Some ([(''D'', 100), (''A'', 90), (''C'', 90), (''H'', 60), (''E'', 57)],
                   [(''B'', 50), (''E'', 57), (''H'', 60), (''A'', 90), (''C'', 90)])"
    by (simp add: getRankings_def eight_voted sample_consensus sort_cmp_def titled_facts)
  from C3_getRankings[OF h] obtain r where r: "getRankings eight_initiatives = Some r" by blast
  have 1: "\<exists>r. getRankings eight_initiatives = Some r \<and>
      map (\<lambda>d. (titulo (fst d), consensusIndex (snd d))) (topConsensus r)
        = [(''D'', 100), (''A'', 90), (''C'', 90), (''H'', 60), (''E'', 57)] \<and>
      map (\<lambda>d. (titulo (fst d), consensusIndex (snd d))) (topDivisive r)
        = [(''B'', 50), (''E'', 57), (''H'', 60), (''A'', 90), (''C'', 90)]"
    using r g by simp
  have k: "\<forall>i \<in> set [unvoted, titled ''A'' 90 10, bare]. yes_votes i + no_votes i < 2 ^ 53"
    by (simp add: titled_facts b unvoted_facts)
  from C3_getRankings[OF k] obtain details byIndex byDistance r' where
    d: "map fst details = filter voting_exists [unvoted, titled ''A'' 90 10, bare]"
       "mset byIndex = mset details" "mset byDistance = mset details"
       "getRankings [unvoted, titled ''A'' 90 10, bare] = Some r'"
       "topConsensus r' = take 5 byIndex" "topDivisive r' = take 5 byDistance"
    by (elim exE conjE) (rule that)
  have f: "filter voting_exists [unvoted, titled ''A'' 90 10, bare] = [titled ''A'' 90 10]"
    by (simp add: unvoted_facts titled_facts b)
  obtain x where x: "details = [x]" "fst x = titled ''A'' 90 10"
    using d(1) unfolding f by auto
  have "byIndex = [x]" "byDistance = [x]"
    using d(2,3) unfolding x(1) by simp_all
  then have 2: "\<exists>r. getRankings [unvoted, titled ''A'' 90 10, bare] = Some r \<and>
      map fst (topConsensus r) = [titled ''A'' 90 10] \<and>
      map fst (topDivisive r) = [titled ''A'' 90 10]"
    using d(4,5,6) x(2) by simp
  show ?thesis using h 1 k 2 by (simp only: list_all_iff simp_thms)
qed

section \<open>\<open>calculateDashboardStats\<close>\<close>

lemma dashboard_step_counts:
  "successCount (dashboard_step i s) = successCount s + (if outcome i = Success then 1 else 0)"
  "failureCount (dashboard_step i s) = failureCount s + (if outcome i = Failure then 1 else 0)"
  "neutralCount (dashboard_step i s) = neutralCount s + (if outcome i = Neutral then 1 else 0)"
  "finalizedCount (dashboard_step i s)
     = finalizedCount s + (if outcome i = Not_finalized then 0 else 1)"
  by (simp_all add: dashboard_step_def outcome_def Let_def str_includes_sublist)

lemma dashboard_fold_counts:
  "successCount (fold dashboard_step inits s) = successCount s + count_outcome Success inits"
  "failureCount (fold dashboard_step inits s) = failureCount s + count_outcome Failure inits"
  "neutralCount (fold dashboard_step inits s) = neutralCount s + count_outcome Neutral inits"
  "finalizedCount (fold dashboard_step inits s)
     = finalizedCount s + length (filter (\<lambda>i. outcome i \<noteq> Not_finalized) inits)"
  by (induction inits arbitrary: s) (simp_all add: dashboard_step_counts count_outcome_def)

lemma dashboard_loop_counts:
  "successCount (dashboard_loop inits) = count_outcome Success inits"
  "failureCount (dashboard_loop inits) = count_outcome Failure inits"
  "neutralCount (dashboard_loop inits) = count_outcome Neutral inits"
  "finalizedCount (dashboard_loop inits) = length (filter (\<lambda>i. outcome i \<noteq> Not_finalized) inits)"
  by (simp_all add: dashboard_loop_def dashboard_fold_counts dash_init_def)

lemma finalized_sum:
  "length (filter (\<lambda>i. outcome i \<noteq> Not_finalized) inits)
     = count_outcome Success inits + count_outcome Failure inits + count_outcome Neutral inits"
proof (induction inits)
  case Nil
  then show ?case by (simp add: count_outcome_def)
next
  case (Cons i inits)
  then show ?case by (cases "outcome i") (simp_all add: count_outcome_def)
qed

lemma guarded_percent_total: "\<exists>r. (if b > 0 then percent a b else Some 0) = Some r"
  using percent_Some[of b a] by auto

lemma calculateDashboardStats_total:
  "\<exists>g gov grp.
     (if finalizedCount (dashboard_loop inits) > 0
      then percent (successCount (dashboard_loop inits)) (finalizedCount (dashboard_loop inits))
      else Some 0) = Some g \<and>
     calculateDashboardStats inits =
       Some \<lparr>globalSuccessRate = g,
             breakdown = \<lparr>success = successCount (dashboard_loop inits),
                          failure = failureCount (dashboard_loop inits),
                          neutral = neutralCount (dashboard_loop inits)\<rparr>,
             authorEfficiency =
               \<lparr>gobierno = \<lparr>eff_total = gov_total (dashboard_loop inits),
                              eff_success = gov_success (dashboard_loop inits), eff_rate = gov\<rparr>,
                groups = \<lparr>eff_total = group_total (dashboard_loop inits),
                            eff_success = group_success (dashboard_loop inits), eff_rate = grp\<rparr>\<rparr>\<rparr> \<and>
     (gov_total (dashboard_loop inits) = 0 \<longrightarrow> gov = 0) \<and>
     (group_total (dashboard_loop inits) = 0 \<longrightarrow> grp = 0)"
proof -
  define s where "s = dashboard_loop inits"
  obtain g where g: "(if finalizedCount s > 0 then percent (successCount s) (finalizedCount s) else Some 0) = Some g"
    using guarded_percent_total by blast
  obtain gov where gov: "(if gov_total s > 0 then percent (gov_success s) (gov_total s) else Some 0) = Some gov"
    using guarded_percent_total by blast
  obtain grp where grp: "(if group_total s > 0 then percent (group_success s) (group_total s) else Some 0) = Some grp"
    using guarded_percent_total by blast
  have z1: "gov_total s = 0 \<longrightarrow> gov = 0" using gov by auto
  have z2: "group_total s = 0 \<longrightarrow> grp = 0" using grp by auto
  have c: "calculateDashboardStats inits =
       Some \<lparr>globalSuccessRate = g,
             breakdown = \<lparr>success = successCount s, failure = failureCount s, neutral = neutralCount s\<rparr>,
             authorEfficiency =
               \<lparr>gobierno = \<lparr>eff_total = gov_total s, eff_success = gov_success s, eff_rate = gov\<rparr>,
                groups = \<lparr>eff_total = group_total s, eff_success = group_success s, eff_rate = grp\<rparr>\<rparr>\<rparr>"
    unfolding calculateDashboardStats_def s_def[symmetric] Let_def
    by (simp only: g gov grp Option.bind.simps)
  show ?thesis
    unfolding s_def[symmetric]
    apply (rule exI[where x = g])
    apply (rule exI[where x = gov])
    apply (rule exI[where x = grp])
    using g c z1 z2 by (intro conjI)
qed

text \<open>
  Claim C4, as the code has it. For every list of initiatives (shorter than \<open>2^32\<close>),
  \<open>calculateDashboardStats\<close> counts as success the initiatives whose status contains
  "Aprobado" or "Convalidado", else as failure those whose status contains "Rechazado" or
  "Derogado", else as neutral those whose status contains "Retirado" or "Decaido" spelt
  with an acute accent on its i; the match is on exact characters, and any other status is in no count.
  \<open>finalizedCount\<close> is the sum of the three counts of \<open>breakdown\<close>.
  \<open>globalSuccessRate\<close> is 0 when \<open>finalizedCount\<close> is 0; otherwise it is
  \<open>Math.round\<close> of the double \<open>(successCount / finalizedCount) * 100\<close>: an integer
  nearest to \<open>100 * successCount / finalizedCount\<close>, equal to
  \<open>round(100 * successCount / finalizedCount)\<close> whenever that value is not exactly half-way
  between two integers.
\<close>

theorem C4_calculateDashboardStats:
  assumes "length initiatives < 2 ^ 32"
  shows "\<exists>r. calculateDashboardStats initiatives = Some r \<and>
     success (breakdown r) = count_outcome Success initiatives \<and>
     failure (breakdown r) = count_outcome Failure initiatives \<and>
     neutral (breakdown r) = count_outcome Neutral initiatives \<and>
     finalizedCount (dashboard_loop initiatives)
       = success (breakdown r) + failure (breakdown r) + neutral (breakdown r) \<and>
     (if finalizedCount (dashboard_loop initiatives) = 0 then globalSuccessRate r = 0
      else nearest_percent (globalSuccessRate r) (count_outcome Success initiatives)
             (finalizedCount (dashboard_loop initiatives)) \<and>
           (\<not> half_way (count_outcome Success initiatives)
                 (finalizedCount (dashboard_loop initiatives)) \<longrightarrow>
            globalSuccessRate r
              = exact_round_percent (count_outcome Success initiatives)
                  (finalizedCount (dashboard_loop initiatives))))"
proof -
  define f where "f = finalizedCount (dashboard_loop initiatives)"
  define sc where "sc = count_outcome Success initiatives"
  from calculateDashboardStats_total[of initiatives] obtain g gov grp where
    g: "(if f > 0 then percent sc f else Some 0) = Some g" and
    c: "calculateDashboardStats initiatives =
       Some \<lparr>globalSuccessRate = g,
             breakdown = \<lparr>success = successCount (dashboard_loop initiatives),
                          failure = failureCount (dashboard_loop initiatives),
                          neutral = neutralCount (dashboard_loop initiatives)\<rparr>,
             authorEfficiency =
               \<lparr>gobierno = \<lparr>eff_total = gov_total (dashboard_loop initiatives),
                              eff_success = gov_success (dashboard_loop initiatives), eff_rate = gov\<rparr>,
                groups = \<lparr>eff_total = group_total (dashboard_loop initiatives),
                            eff_success = group_success (dashboard_loop initiatives), eff_rate = grp\<rparr>\<rparr>\<rparr>"
    unfolding f_def sc_def dashboard_loop_counts(1) by blast
  have fs: "f = count_outcome Success initiatives + count_outcome Failure initiatives
               + count_outcome Neutral initiatives"
    by (simp add: f_def dashboard_loop_counts finalized_sum)
  have scb: "sc < 2 ^ 40"
  proof -
    have "sc \<le> length initiatives" by (simp add: sc_def count_outcome_def)
    also have "\<dots> < 2 ^ 32" by (rule assms)
    also have "(2::nat) ^ 32 \<le> 2 ^ 40" by simp
    finally show ?thesis .
  qed
  have rate: "if f = 0 then g = 0
      else nearest_percent g sc f \<and> (\<not> half_way sc f \<longrightarrow> g = exact_round_percent sc f)"
  proof (cases "f = 0")
    case True
    then show ?thesis using g by simp
  next
    case False
    then have pos: "0 < f" by simp
    then have p: "percent sc f = Some g" using g by simp
    have n: "nearest_percent g sc f" unfolding nearest_percent_def by (rule percent_nearest[OF scb p])
    show ?thesis using False n nearest_not_half_way[OF n pos] by auto
  qed
  define r where "r = \<lparr>globalSuccessRate = g,
             breakdown = \<lparr>success = successCount (dashboard_loop initiatives),
                          failure = failureCount (dashboard_loop initiatives),
                          neutral = neutralCount (dashboard_loop initiatives)\<rparr>,
             authorEfficiency =
               \<lparr>gobierno = \<lparr>eff_total = gov_total (dashboard_loop initiatives),
                              eff_success = gov_success (dashboard_loop initiatives), eff_rate = gov\<rparr>,
                groups = \<lparr>eff_total = group_total (dashboard_loop initiatives),
                            eff_success = group_success (dashboard_loop initiatives), eff_rate = grp\<rparr>\<rparr>\<rparr>"
  have r0: "calculateDashboardStats initiatives = Some r" by (simp only: c r_def)
  have r1: "success (breakdown r) = count_outcome Success initiatives"
    by (simp add: r_def dashboard_loop_counts)
  have r2: "failure (breakdown r) = count_outcome Failure initiatives"
    by (simp add: r_def dashboard_loop_counts)
  have r3: "neutral (breakdown r) = count_outcome Neutral initiatives"
    by (simp add: r_def dashboard_loop_counts)
  have r4: "finalizedCount (dashboard_loop initiatives)
       = success (breakdown r) + failure (breakdown r) + neutral (breakdown r)"
    using fs by (simp only: r1 r2 r3 f_def)
  have r5: "globalSuccessRate r = g" by (simp add: r_def)
  have r6: "if finalizedCount (dashboard_loop initiatives) = 0 then globalSuccessRate r = 0
      else nearest_percent (globalSuccessRate r) (count_outcome Success initiatives)
             (finalizedCount (dashboard_loop initiatives)) \<and>
           (\<not> half_way (count_outcome Success initiatives)
                 (finalizedCount (dashboard_loop initiatives)) \<longrightarrow>
            globalSuccessRate r
              = exact_round_percent (count_outcome Success initiatives)
                  (finalizedCount (dashboard_loop initiatives)))"
    using rate by (simp only: r5 f_def sc_def)
  show ?thesis
    apply (rule exI[where x = r])
    using r0 r1 r2 r3 r4 r6 by (intro conjI)
qed

lemma sample_outcomes:
  "outcome (status_only ''Aprobado con modificaciones'') = Success"
  "outcome (status_only ''Aprobado'') = Success"
  "outcome (status_only ''Rechazado'') = Failure"
  "outcome (status_only ''Retirado'') = Neutral"
  "outcome (status_only ''aprobado'') = Not_finalized"
  by (simp_all add: outcome_def status_only_def str_or_empty_def Aprobado_def Convalidado_def
        Rechazado_def Derogado_def Retirado_def Decaido_def i_acute_def sublist_code)

theorem C4_witness:
  "length [status_only ''Aprobado con modificaciones'', status_only ''Aprobado'',
           status_only ''Rechazado'', status_only ''Retirado'', status_only ''aprobado'']
     < 2 ^ 32 \<and>
   (\<exists>r. calculateDashboardStats
          [status_only ''Aprobado con modificaciones'', status_only ''Aprobado'',
           status_only ''Rechazado'', status_only ''Retirado'', status_only ''aprobado'']
          = Some r \<and>
        success (breakdown r) = 2 \<and> failure (breakdown r) = 1 \<and> neutral (breakdown r) = 1 \<and>
        globalSuccessRate r = 50)"
proof -
  let ?xs = "[status_only ''Aprobado con modificaciones'', status_only ''Aprobado'',
              status_only ''Rechazado'', status_only ''Retirado'', status_only ''aprobado'']"
  have l: "length ?xs < 2 ^ 32" by simp
  have c: "count_outcome Success ?xs = 2" "count_outcome Failure ?xs = 1"
          "count_outcome Neutral ?xs = 1"
    by (simp_all add: count_outcome_def sample_outcomes)
  have h: "\<not> half_way 2 4" by (simp add: half_way_def)
  have e: "exact_round_percent 2 4 = 50" by (simp add: exact_round_percent_div)
  from C4_calculateDashboardStats[OF l] obtain r where
    r: "calculateDashboardStats ?xs = Some r"
       "success (breakdown r) = 2" "failure (breakdown r) = 1" "neutral (breakdown r) = 1"
       "finalizedCount (dashboard_loop ?xs)
          = success (breakdown r) + failure (breakdown r) + neutral (breakdown r)"
       "if finalizedCount (dashboard_loop ?xs) = 0 then globalSuccessRate r = 0
        else nearest_percent (globalSuccessRate r) 2 (finalizedCount (dashboard_loop ?xs)) \<and>
           (\<not> half_way 2 (finalizedCount (dashboard_loop ?xs)) \<longrightarrow>
            globalSuccessRate r = exact_round_percent 2 (finalizedCount (dashboard_loop ?xs)))"
    unfolding c by blast
  have f: "finalizedCount (dashboard_loop ?xs) = 4" using r(2,3,4,5) by simp
  have "globalSuccessRate r = 50" using r(6) h e unfolding f by simp
  then show ?thesis using l r(1,2,3,4) by blast
qed

text \<open>
  Claim C4 as written fails on 23 approved and 17 rejected initiatives: the exact
  percentage 57.5 rounds to 58, the code returns 57.
\<close>

theorem C4_counterexample:
  "map_option globalSuccessRate
     (calculateDashboardStats
        (replicate 23 (status_only ''Aprobado'') @ replicate 17 (status_only ''Rechazado'')))
     = Some 57 \<and>
   count_outcome Success
     (replicate 23 (status_only ''Aprobado'') @ replicate 17 (status_only ''Rechazado'')) = 23 \<and>
   finalizedCount (dashboard_loop
     (replicate 23 (status_only ''Aprobado'') @ replicate 17 (status_only ''Rechazado''))) = 40 \<and>
   exact_round_percent 23 40 = 58"
proof -
  let ?xs = "replicate 23 (status_only ''Aprobado'') @ replicate 17 (status_only ''Rechazado'')"
  note o = sample_outcomes(2,3)
  have sc: "count_outcome Success ?xs = 23" by (simp add: count_outcome_def o)
  have f: "finalizedCount (dashboard_loop ?xs) = 40" by (simp add: dashboard_loop_counts o)
  have p: "percent 23 40 = Some 57" by code_simp
  have e: "exact_round_percent 23 40 = 58" by (simp add: exact_round_percent_div)
  from calculateDashboardStats_total[of ?xs] obtain g gov grp where
    "percent 23 40 = Some g" and
    "calculateDashboardStats ?xs =
       Some \<lparr>globalSuccessRate = g,
             breakdown = \<lparr>success = successCount (dashboard_loop ?xs),
                          failure = failureCount (dashboard_loop ?xs),
                          neutral = neutralCount (dashboard_loop ?xs)\<rparr>,
             authorEfficiency =
               \<lparr>gobierno = \<lparr>eff_total = gov_total (dashboard_loop ?xs),
                              eff_success = gov_success (dashboard_loop ?xs), eff_rate = gov\<rparr>,
                groups = \<lparr>eff_total = group_total (dashboard_loop ?xs),
                            eff_success = group_success (dashboard_loop ?xs), eff_rate = grp\<rparr>\<rparr>\<rparr>"
    unfolding f dashboard_loop_counts(1) sc by auto
  then have "map_option globalSuccessRate (calculateDashboardStats ?xs) = Some 57"
    using p by simp
  then show ?thesis using sc f e by blast
qed

section \<open>\<open>calculateParticipationStats\<close>\<close>

lemma broken_details_total: "\<exists>r. broken_details votes = Some r"
  by (auto simp: broken_details_def js_div_def Let_def)

lemma push_block_party_block: "push_block init e bs = Some (bs @ party_block init e)"
proof -
  obtain r where r: "broken_details (snd e) = Some r" using broken_details_total by blast
  show ?thesis by (cases r) (simp_all add: push_block_def party_block_def r)
qed

lemma fold_push_block:
  "fold_opt (push_block init) es bs = Some (bs @ concat (map (party_block init) es))"
  by (induction es arbitrary: bs) (simp_all add: push_block_party_block)


lemma participation_step_skip:
  "qualifying init = None \<Longrightarrow> participation_step init s = Some s"
  by (simp add: participation_step_def)

lemma participation_step_qualifying:
  assumes "qualifying init = Some (totals, d)"
  shows "participation_step init s =
     Some \<lparr>st_totalPresent = st_totalPresent s + num_or (presentes totals) 350,
           st_totalVoted = st_totalVoted s + votesCast totals,
           st_totalAbstentions = st_totalAbstentions s + num_or (abstenciones totals) 0,
           st_noVotesByParty = add_no_votes (desg_no_vote d) (st_noVotesByParty s),
           st_criticalAbsences = add_critical init totals (st_criticalAbsences s),
           st_brokenBlocks =
             st_brokenBlocks s @ concat (map (party_block init) (own_entries (party_tallies d)))\<rparr>"
  by (simp add: participation_step_def assms fold_push_block)

lemma participation_step_effect:
  "\<exists>s'. participation_step init s = Some s' \<and>
     st_totalVoted s' = st_totalVoted s + cast_votes init \<and>
     st_totalAbstentions s' = st_totalAbstentions s + abstained init \<and>
     st_brokenBlocks s' = st_brokenBlocks s @ initiative_blocks init"
proof (cases "qualifying init")
  case None
  then show ?thesis
    by (simp add: participation_step_skip cast_votes_def abstained_def initiative_blocks_def)
next
  case (Some q)
  obtain totals d where q: "q = (totals, d)" by (cases q)
  show ?thesis
    using Some unfolding q
    by (simp add: participation_step_qualifying cast_votes_def abstained_def initiative_blocks_def)
qed

lemma participation_fold:
  "\<exists>s'. fold_opt participation_step inits s = Some s' \<and>
     st_totalVoted s' = st_totalVoted s + sum_list (map cast_votes inits) \<and>
     st_totalAbstentions s' = st_totalAbstentions s + sum_list (map abstained inits) \<and>
     st_brokenBlocks s' = st_brokenBlocks s @ concat (map initiative_blocks inits)"
proof (induction inits arbitrary: s)
  case Nil
  then show ?case by simp
next
  case (Cons i inits)
  from participation_step_effect[of i s] obtain s1 where
    s1: "participation_step i s = Some s1"
        "st_totalVoted s1 = st_totalVoted s + cast_votes i"
        "st_totalAbstentions s1 = st_totalAbstentions s + abstained i"
        "st_brokenBlocks s1 = st_brokenBlocks s @ initiative_blocks i" by blast
  from Cons[of s1] obtain s2 where
    s2: "fold_opt participation_step inits s1 = Some s2"
        "st_totalVoted s2 = st_totalVoted s1 + sum_list (map cast_votes inits)"
        "st_totalAbstentions s2 = st_totalAbstentions s1 + sum_list (map abstained inits)"
        "st_brokenBlocks s2 = st_brokenBlocks s1 @ concat (map initiative_blocks inits)" by blast
  show ?case using s1 s2 by simp
qed

lemma map_of_assign: "map_of (assign k v m) k = Some v"
  by (induction m) auto

lemma deputy_step_total: "\<exists>m'. deputy_step deputy m = Some m'"
  by (cases "map_of m (deputy_id deputy)") (simp_all add: deputy_step_def Let_def map_of_assign)

lemma fold_opt_total:
  assumes "\<And>x s. \<exists>s'. f x s = Some s'"
  shows "\<exists>s'. fold_opt f xs s = Some s'"
proof (induction xs arbitrary: s)
  case Nil
  then show ?case by simp
next
  case (Cons x xs)
  obtain s1 where "f x s = Some s1" using assms by blast
  then show ?case using Cons[of s1] by simp
qed

lemma deputies_total:
  "\<exists>m'. fold_opt (\<lambda>init m. fold_opt deputy_step (noVoteList init) m) inits m = Some m'"
  by (rule fold_opt_total) (rule fold_opt_total, rule deputy_step_total)

lemma calculateParticipationStats_total:
  "\<exists>r. calculateParticipationStats inits = Some r \<and>
     totalVoted r = int (sum_list (map cast_votes inits)) \<and>
     totalAbstentions r = int (sum_list (map abstained inits)) \<and>
     totalPossibleVotes r = int (length inits * 350) \<and>
     totalNoVotes r = int (length inits * 350) - int (sum_list (map cast_votes inits)) \<and>
     brokenBlocks r = take 3 (concat (map initiative_blocks inits)) \<and>
     (inits = [] \<longrightarrow> globalCommitment r = 0)"
proof -
  from participation_fold[of inits pstate_init] obtain s where
    s: "fold_opt participation_step inits pstate_init = Some s"
       "st_totalVoted s = sum_list (map cast_votes inits)"
       "st_totalAbstentions s = sum_list (map abstained inits)"
       "st_brokenBlocks s = concat (map initiative_blocks inits)"
    by (auto simp: pstate_init_def)
  obtain m where
    m: "fold_opt (\<lambda>init m. fold_opt deputy_step (noVoteList init) m) inits [] = Some m"
    using deputies_total by blast
  obtain g where
    g: "(if length inits * 350 > 0 then percent (st_totalVoted s) (length inits * 350) else Some 0)
          = Some g"
    using guarded_percent_total by blast
  have g0: "inits = [] \<longrightarrow> g = 0" using g by auto
  define r where "r =
     \<lparr>globalCommitment = g,
      totalVoted = int (st_totalVoted s),
      totalPossibleVotes = int (length inits * 350),
      totalAbstentions = int (st_totalAbstentions s),
      totalNoVotes = int (length inits * 350) - int (st_totalVoted s),
      absenteeismRanking =
        take 5 (sort_cmp (\<lambda>a b. int (pc_count b) - int (pc_count a))
                  (map (\<lambda>(p, c). \<lparr>pc_party = p, pc_count = c\<rparr>)
                     (own_entries (st_noVotesByParty s)))),
      deputyRanking =
        take 10 (sort_cmp (\<lambda>a b. int (dep_count b) - int (dep_count a))
                   (map snd (own_entries m))),
      criticalAbsences = take 3 (st_criticalAbsences s),
      brokenBlocks = take 3 (st_brokenBlocks s)\<rparr>"
  have c: "calculateParticipationStats inits = Some r"
    unfolding calculateParticipationStats_def Let_def r_def
    by (simp only: s(1) m g Option.bind.simps)
  have f: "totalVoted r = int (sum_list (map cast_votes inits))"
    "totalAbstentions r = int (sum_list (map abstained inits))"
    "totalPossibleVotes r = int (length inits * 350)"
    "totalNoVotes r = int (length inits * 350) - int (sum_list (map cast_votes inits))"
    "brokenBlocks r = take 3 (concat (map initiative_blocks inits))"
    "inits = [] \<longrightarrow> globalCommitment r = 0"
    using g0 by (simp_all add: r_def s(2,3,4))
  show ?thesis
    apply (rule exI[where x = r])
    using c f by (intro conjI)
qed

lemma sample_qualifying:
  "qualifying totals_only = None"
  "qualifying totals_and_desglose = Some (sample_totals, sample_desglose)"
  "qualifying bare = None"
  by (simp_all add: qualifying_def totals_only_def totals_and_desglose_def bare_def)

lemma sample_votesCast: "votesCast sample_totals = 18" "num_or (abstenciones sample_totals) 0 = 3"
  by (simp_all add: votesCast_def sample_totals_def num_or_def)

text \<open>
  Claim C7. For every list of initiatives, \<open>totalNoVotes\<close> is
  \<open>initiativeCount * 350 - totalVoted\<close>, so that \<open>totalNoVotes + totalVoted\<close> is
  \<open>initiativeCount * 350\<close>, which is also \<open>totalPossibleVotes\<close>; \<open>totalVoted\<close> is the sum
  of the votes cast in the qualifying initiatives. The list has fewer than \<open>2^32\<close>
  elements, as every array has, and the votes cast sum to less than \<open>2^53\<close>, so that the
  sums and the difference that the source computes in doubles are exact.
\<close>

theorem C7_seats:
  assumes "length initiatives < 2 ^ 32"
      and "sum_list (map cast_votes initiatives) < 2 ^ 53"
  shows "\<exists>r. calculateParticipationStats initiatives = Some r \<and>
     totalVoted r = int (sum_list (map cast_votes initiatives)) \<and>
     totalNoVotes r = int (length initiatives) * 350 - totalVoted r \<and>
     totalNoVotes r + totalVoted r = int (length initiatives) * 350 \<and>
     totalPossibleVotes r = int (length initiatives) * 350"
proof -
  from calculateParticipationStats_total[of initiatives] obtain r where
    "calculateParticipationStats initiatives = Some r"
    "totalVoted r = int (sum_list (map cast_votes initiatives))"
    "totalPossibleVotes r = int (length initiatives * 350)"
    "totalNoVotes r = int (length initiatives * 350) - int (sum_list (map cast_votes initiatives))"
    by blast
  then show ?thesis by auto
qed

theorem C7_witness:
  "length [totals_only, totals_and_desglose, bare] < 2 ^ 32 \<and>
   sum_list (map cast_votes [totals_only, totals_and_desglose, bare]) < 2 ^ 53 \<and>
   (\<exists>r. calculateParticipationStats [totals_only, totals_and_desglose, bare] = Some r \<and>
        totalVoted r = 18 \<and> totalNoVotes r = 1032 \<and> totalPossibleVotes r = 1050)"
proof -
  have c: "cast_votes totals_only = 0" "cast_votes totals_and_desglose = 18" "cast_votes bare = 0"
    by (simp_all add: cast_votes_def sample_qualifying sample_votesCast)
  have h: "length [totals_only, totals_and_desglose, bare] < 2 ^ 32"
    "sum_list (map cast_votes [totals_only, totals_and_desglose, bare]) < 2 ^ 53"
    by (simp_all add: c)
  show ?thesis using C7_seats[OF h] h by (auto simp: c)
qed


































section \<open>No failure, no non-finite rate\<close>

lemma getRankings_total: "\<exists>r. getRankings initiatives = Some r"
proof -
  from details_total[of "filter voting_exists initiatives"] obtain details where
    "map_opt (\<lambda>i. map_option (\<lambda>metric. (i, metric)) (calculateConsensus i))
       (filter voting_exists initiatives) = Some details" by blast
  then show ?thesis by (simp add: getRankings_def)
qed

lemma calculateConsensus_zero:
  "\<exists>m. calculateConsensus i = Some m \<and> (yes_votes i + no_votes i = 0 \<longrightarrow> consensusIndex m = 0)"
proof (cases "yes_votes i + no_votes i = 0")
  case True
  then show ?thesis using calculateConsensus_no_vote[of i] by (simp add: sin_votacion_def)
next
  case False
  obtain m where "calculateConsensus i = Some m" using calculateConsensus_total by fast
  then show ?thesis using False by auto
qed

lemma getAffinity_zero:
  "\<exists>r. getAffinity inits t ref = Some r \<and> (comparisons inits t ref = 0 \<longrightarrow> r = 0)"
  using percent_Some[of "comparisons inits t ref" "matches inits t ref"]
  by (auto simp: getAffinity_counts)

lemma dashboard_step_not_finalized:
  "outcome i = Not_finalized \<Longrightarrow> dashboard_step i s = s"
  by (simp add: dashboard_step_def outcome_def Let_def str_includes_sublist split: if_splits)

lemma guarded_percent_zero:
  "(if b > 0 then percent a b else Some 0) = Some g \<Longrightarrow> b = 0 \<Longrightarrow> g = 0"
  by simp

lemma calculateDashboardStats_zero:
  "\<exists>r. calculateDashboardStats inits = Some r \<and>
     (finalizedCount (dashboard_loop inits) = 0 \<longrightarrow> globalSuccessRate r = 0) \<and>
     (eff_total (gobierno (authorEfficiency r)) = 0 \<longrightarrow> eff_rate (gobierno (authorEfficiency r)) = 0) \<and>
     (eff_total (groups (authorEfficiency r)) = 0 \<longrightarrow> eff_rate (groups (authorEfficiency r)) = 0)"
proof -
  define s where "s = dashboard_loop inits"
  obtain g where g: "(if finalizedCount s > 0 then percent (successCount s) (finalizedCount s) else Some 0) = Some g"
    using guarded_percent_total by blast
  obtain gov where gov: "(if gov_total s > 0 then percent (gov_success s) (gov_total s) else Some 0) = Some gov"
    using guarded_percent_total by blast
  obtain grp where grp: "(if group_total s > 0 then percent (group_success s) (group_total s) else Some 0) = Some grp"
    using guarded_percent_total by blast
  define r where "r = \<lparr>globalSuccessRate = g,
             breakdown = \<lparr>success = successCount s, failure = failureCount s, neutral = neutralCount s\<rparr>,
             authorEfficiency =
               \<lparr>gobierno = \<lparr>eff_total = gov_total s, eff_success = gov_success s, eff_rate = gov\<rparr>,
                groups = \<lparr>eff_total = group_total s, eff_success = group_success s, eff_rate = grp\<rparr>\<rparr>\<rparr>"
  have c: "calculateDashboardStats inits = Some r"
    unfolding calculateDashboardStats_def s_def[symmetric] Let_def r_def
    by (simp only: g gov grp Option.bind.simps)
  have z1: "finalizedCount s = 0 \<longrightarrow> globalSuccessRate r = 0"
    using guarded_percent_zero[OF g] by (simp add: r_def)
  have z2: "eff_total (gobierno (authorEfficiency r)) = 0 \<longrightarrow> eff_rate (gobierno (authorEfficiency r)) = 0"
    using guarded_percent_zero[OF gov] by (simp add: r_def)
  have z3: "eff_total (groups (authorEfficiency r)) = 0 \<longrightarrow> eff_rate (groups (authorEfficiency r)) = 0"
    using guarded_percent_zero[OF grp] by (simp add: r_def)
  show ?thesis
    unfolding s_def[symmetric]
    apply (rule exI[where x = r])
    using c z1 z2 z3 by (intro conjI)
qed

lemma dashboard_author_totals:
  "calculateDashboardStats inits = Some r \<Longrightarrow>
     eff_total (gobierno (authorEfficiency r)) = gov_total (dashboard_loop inits) \<and>
     eff_total (groups (authorEfficiency r)) = group_total (dashboard_loop inits)"
  by (auto simp: calculateDashboardStats_def Let_def split: Option.bind_splits)

lemma deputy_step_any_typed:
  "deputy_step_any (Object (deputy_any deputy)) m = deputy_step deputy m"
proof -
  have i: "deputy_id_any (deputy_any deputy) = deputy_id deputy"
    by (simp add: deputy_id_any_def deputy_id_def deputy_any_def)
  have n: "new_entry_any (deputy_any deputy) = Some (new_entry deputy)"
    by (cases "grupo deputy"; cases "formacion deputy")
       (simp_all add: new_entry_any_def new_entry_def deputy_any_def Let_def)
  show ?thesis
    by (cases "map_of m (deputy_id deputy)")
       (simp_all add: deputy_step_any_def deputy_step_def i n Let_def)
qed

lemma fold_deputy_step_any_typed:
  "fold_opt deputy_step_any (map (\<lambda>deputy. Object (deputy_any deputy)) l) m
     = fold_opt deputy_step l m"
  by (induction l arbitrary: m) (simp_all add: deputy_step_any_typed split: option.splits)

lemma deputies_any_typed:
  "deputies_any (initiative_any init) m = fold_opt deputy_step (noVoteList init) m"
  by (simp add: deputies_any_def noVoteList_any_def noVoteList_def initiative_any_def list_any_def
        fold_deputy_step_any_typed split: option.splits)

lemma fold_deputies_any_typed:
  "fold_opt deputies_any (map initiative_any inits) m
     = fold_opt (\<lambda>init m. fold_opt deputy_step (noVoteList init) m) inits m"
  by (induction inits arbitrary: m) (simp_all add: deputies_any_typed split: option.splits)

lemma qualifying_any: "qualifying (initiative_any init) = qualifying init"
  by (simp add: qualifying_def initiative_any_def split: option.splits)

lemma participation_step_any:
  "participation_step (initiative_any init) (state_any s)
     = map_option state_any (participation_step init s)"
proof (cases "qualifying init")
  case None
  then show ?thesis by (simp add: participation_step_skip qualifying_any)
next
  case (Some q)
  obtain totals d where q: "q = (totals, d)" by (cases q)
  have b: "map (\<lambda>b. \<lparr>bb_initiative = initiative_any (bb_initiative b), party = party b,
                       details = details b\<rparr>) (party_block init e)
           = party_block (initiative_any init) e" for e
    by (simp add: party_block_def split: option.splits)
  have bs: "map (\<lambda>b. \<lparr>bb_initiative = initiative_any (bb_initiative b), party = party b,
                       details = details b\<rparr>) (concat (map (party_block init) es))
           = concat (map (party_block (initiative_any init)) es)" for es
    by (induction es) (simp_all add: b)
  show ?thesis
    using Some unfolding q
    by (simp add: participation_step_qualifying qualifying_any state_any_def add_critical_def
          Let_def bs)
qed

lemma participation_fold_any:
  "fold_opt participation_step (map initiative_any inits) (state_any s)
     = map_option state_any (fold_opt participation_step inits s)"
proof (induction inits arbitrary: s)
  case Nil
  then show ?case by simp
next
  case (Cons i inits)
  obtain s1 where s1: "participation_step i s = Some s1"
    using participation_step_effect[of i s] by blast
  show ?case by (simp add: participation_step_any s1 Cons)
qed

text \<open>On an input of the shape of the data model, read as \<open>any\<close>, the function returns
  what it returns on the input itself.\<close>

lemma calculateParticipationStats_any_typed:
  "calculateParticipationStats_any (map initiative_any initiatives)
     = map_option stats_any (calculateParticipationStats initiatives)"
proof -
  obtain s where s: "fold_opt participation_step initiatives pstate_init = Some s"
    using participation_fold[of initiatives pstate_init] by blast
  have i: "state_any pstate_init = pstate_init" by (simp add: state_any_def pstate_init_def)
  have s': "fold_opt participation_step (map initiative_any initiatives) pstate_init
              = Some (state_any s)"
    using participation_fold_any[of initiatives pstate_init] by (simp add: i s)
  obtain m where
    m: "fold_opt (\<lambda>init m. fold_opt deputy_step (noVoteList init) m) initiatives [] = Some m"
    using deputies_total by blast
  obtain g where
    g: "(if length initiatives * 350 > 0
         then percent (st_totalVoted s) (length initiatives * 350) else Some 0) = Some g"
    using guarded_percent_total by blast
  have g': "(if length (map initiative_any initiatives) * 350 > 0
         then percent (st_totalVoted (state_any s)) (length (map initiative_any initiatives) * 350)
         else Some 0) = Some g"
    using g by (auto simp: state_any_def split: if_splits)
  show ?thesis
    unfolding calculateParticipationStats_any_def calculateParticipationStats_def Let_def
    apply (simp only: s s' m g g' fold_deputies_any_typed Option.bind.simps option.map)
    apply (simp add: stats_any_def state_any_def take_map)
    done
qed

lemma new_entry_any_total:
  "any_grupo deputy \<noteq> Not_text \<Longrightarrow> \<exists>e. new_entry_any deputy = Some e"
  by (cases "any_grupo deputy") (simp_all add: new_entry_any_def Let_def)

lemma deputy_step_any_total:
  assumes "case x of Null \<Rightarrow> False | Object deputy \<Rightarrow> any_grupo deputy \<noteq> Not_text"
  shows "\<exists>m'. deputy_step_any x m = Some m'"
proof (cases x)
  case Null
  then show ?thesis using assms by simp
next
  case (Object deputy)
  then have "any_grupo deputy \<noteq> Not_text" using assms by simp
  then obtain e where e: "new_entry_any deputy = Some e" using new_entry_any_total by blast
  show ?thesis
    by (cases "map_of m (deputy_id_any deputy)")
       (simp_all add: deputy_step_any_def Object Let_def e map_of_assign)
qed

lemma fold_opt_total_on:
  assumes "\<forall>x \<in> set xs. \<forall>s. \<exists>s'. f x s = Some s'"
  shows "\<exists>s'. fold_opt f xs s = Some s'"
  using assms
proof (induction xs arbitrary: s)
  case Nil
  then show ?case by simp
next
  case (Cons x xs)
  then obtain s1 where "f x s = Some s1" by (meson list.set_intros(1))
  then show ?case using Cons.IH[of s1] Cons.prems by simp
qed

lemma deputies_any_total:
  assumes "deputy_records init"
  shows "\<exists>m'. deputies_any init m = Some m'"
proof -
  from assms obtain l where
    l: "noVoteList_any init = Some l"
       "list_all (\<lambda>x. case x of Null \<Rightarrow> False | Object deputy \<Rightarrow> any_grupo deputy \<noteq> Not_text) l"
    by (auto simp: deputy_records_def split: option.splits)
  have "\<exists>m'. fold_opt deputy_step_any l m = Some m'"
    by (rule fold_opt_total_on) (use l(2) in \<open>auto simp: list_all_iff deputy_step_any_total\<close>)
  then show ?thesis by (simp add: deputies_any_def l(1))
qed

lemma calculateParticipationStats_any_total:
  assumes "\<forall>j \<in> set inits. deputy_records j"
  shows "\<exists>r. calculateParticipationStats_any inits = Some r \<and>
     (inits = [] \<longrightarrow> globalCommitment r = 0)"
proof -
  from participation_fold[of inits pstate_init] obtain s where
    s: "fold_opt participation_step inits pstate_init = Some s" by blast
  obtain m where m: "fold_opt deputies_any inits [] = Some m"
    using fold_opt_total_on[of inits deputies_any "[]"] assms deputies_any_total by blast
  obtain g where
    g: "(if length inits * 350 > 0 then percent (st_totalVoted s) (length inits * 350) else Some 0)
          = Some g"
    using guarded_percent_total by blast
  have g0: "inits = [] \<longrightarrow> g = 0" using g by auto
  define r where "r =
     \<lparr>globalCommitment = g,
      totalVoted = int (st_totalVoted s),
      totalPossibleVotes = int (length inits * 350),
      totalAbstentions = int (st_totalAbstentions s),
      totalNoVotes = int (length inits * 350) - int (st_totalVoted s),
      absenteeismRanking =
        take 5 (sort_cmp (\<lambda>a b. int (pc_count b) - int (pc_count a))
                  (map (\<lambda>(p, c). \<lparr>pc_party = p, pc_count = c\<rparr>)
                     (own_entries (st_noVotesByParty s)))),
      deputyRanking =
        take 10 (sort_cmp (\<lambda>a b. int (dep_count b) - int (dep_count a))
                   (map snd (own_entries m))),
      criticalAbsences = take 3 (st_criticalAbsences s),
      brokenBlocks = take 3 (st_brokenBlocks s)\<rparr>"
  have c: "calculateParticipationStats_any inits = Some r"
    unfolding calculateParticipationStats_any_def Let_def r_def
    by (simp only: s m g Option.bind.simps)
  have f: "inits = [] \<longrightarrow> globalCommitment r = 0"
    using g0 by (simp add: r_def)
  show ?thesis
    apply (rule exI[where x = r])
    using c f by (intro conjI)
qed

text \<open>
  Claim C8, as the code has it. The input has the shape of the specification's data model:
  a deputy list, where present, is an array of objects whose \<open>grupo\<close>, where present, is
  a string; and its counts are in the range in which the source's arithmetic is exact,
  Yes and No of an initiative and the votes cast of the dataset summing to less than
  \<open>2^53\<close>, in a list of fewer than \<open>2^32\<close> initiatives. Whatever else is missing from such
  an input, each of the four analysis functions returns a result: no property of an absent
  object is read and no division by zero is reached. Every rate of those results is an
  integer, and a rate whose denominator is zero is 0: the index of an initiative with
  \<open>yes + no = 0\<close>, the affinity without comparisons, the success rates of an empty count,
  and the commitment of an empty list.
\<close>

theorem C8_no_failure:
  assumes "yes_votes i + no_votes i < 2 ^ 53"
      and "length initiatives < 2 ^ 32"
      and "\<forall>j \<in> set initiatives. yes_votes j + no_votes j < 2 ^ 53"
      and "sum_list (map cast_votes initiatives) < 2 ^ 53"
      and "\<forall>j \<in> set initiatives. deputy_records j"
  shows "(\<exists>m. calculateConsensus i = Some m \<and>
        (yes_votes i + no_votes i = 0 \<longrightarrow> consensusIndex m = 0)) \<and>
   (\<exists>r. getAffinity initiatives targetCode referenceCode = Some r \<and>
        (comparisons initiatives targetCode referenceCode = 0 \<longrightarrow> r = 0)) \<and>
   (\<exists>r. getRankings initiatives = Some r) \<and>
   (\<exists>r. calculateDashboardStats initiatives = Some r \<and>
        (finalizedCount (dashboard_loop initiatives) = 0 \<longrightarrow> globalSuccessRate r = 0) \<and>
        (eff_total (gobierno (authorEfficiency r)) = 0 \<longrightarrow>
           eff_rate (gobierno (authorEfficiency r)) = 0) \<and>
        (eff_total (groups (authorEfficiency r)) = 0 \<longrightarrow>
           eff_rate (groups (authorEfficiency r)) = 0)) \<and>
   (\<exists>r. calculateParticipationStats_any initiatives = Some r \<and>
        (initiatives = [] \<longrightarrow> globalCommitment r = 0))"
  using calculateConsensus_zero[of i] getAffinity_zero[of initiatives targetCode referenceCode]
    getRankings_total[of initiatives] calculateDashboardStats_zero[of initiatives]
    calculateParticipationStats_any_total[OF assms(5)]
  by (intro conjI)

lemma sample_any_facts:
  "yes_votes bare_any + no_votes bare_any = 0"
  "yes_votes three_absences + no_votes three_absences = 4"
  "yes_votes totals_any + no_votes totals_any = 15"
  "cast_votes bare_any = 0" "cast_votes three_absences = 0" "cast_votes totals_any = 18"
  "deputy_records bare_any" "deputy_records three_absences" "deputy_records totals_any"
  by (simp_all add: yes_votes_def no_votes_def cast_votes_def qualifying_def deputy_records_def
      noVoteList_any_def bare_any_def three_absences_def totals_any_def num_or_def
      sample_votesCast deputy_gs_def deputy_mixed_def)

lemma sample_deputies:
  "fold_opt deputies_any [three_absences, bare_any, totals_any] []
     = Some [(''101'', \<lparr>dep_name = Some ''Ruiz, Ana'', dep_party = Some ''GS'', dep_count = 2\<rparr>),
             (''Sanz, Luis'', \<lparr>dep_name = Some ''Sanz, Luis'', dep_party = Some ''Grupo Mixto'',
                               dep_count = 1\<rparr>)]"
proof -
  have mx: "str_includes (toLowerCase ''Grupo Parlamentario Mixto'') ''mixto''"
    "\<not> str_includes (toLowerCase ''GS'') ''mixto''"
    by code_simp+
  have i: "\<not> inherited ''101''" "\<not> inherited ''Sanz, Luis''"
    by (simp_all add: inherited_def prototype_members_def)
  have l: "noVoteList_any three_absences = Some [Object deputy_gs, Object deputy_mixed, Object deputy_gs]"
    "noVoteList_any bare_any = Some []" "noVoteList_any totals_any = Some []"
    by (simp_all add: noVoteList_any_def three_absences_def bare_any_def totals_any_def)
  have d: "deputy_id_any deputy_gs = ''101''" "deputy_id_any deputy_mixed = ''Sanz, Luis''"
    by (simp_all add: deputy_id_any_def deputy_gs_def deputy_mixed_def)
  have n: "new_entry_any deputy_gs
             = Some \<lparr>dep_name = Some ''Ruiz, Ana'', dep_party = Some ''GS'', dep_count = 0\<rparr>"
    "new_entry_any deputy_mixed
             = Some \<lparr>dep_name = Some ''Sanz, Luis'', dep_party = Some ''Grupo Mixto'', dep_count = 0\<rparr>"
    by (simp_all add: new_entry_any_def deputy_gs_def deputy_mixed_def mx)
  show ?thesis
    by (simp add: deputies_any_def l deputy_step_any_def d n i Let_def)
qed

lemma sample_deputy_ranking:
  "map_option (\<lambda>r. map (\<lambda>e. (dep_name e, dep_party e, dep_count e)) (deputyRanking r))
     (calculateParticipationStats_any [three_absences, bare_any, totals_any])
   = Some [(Some ''Ruiz, Ana'', Some ''GS'', 2), (Some ''Sanz, Luis'', Some ''Grupo Mixto'', 1)]"
proof -
  let ?l = "[three_absences, bare_any, totals_any]"
  obtain s where s: "fold_opt participation_step ?l pstate_init = Some s"
    using participation_fold[of ?l pstate_init] by blast
  obtain g where
    g: "(if length ?l * 350 > 0 then percent (st_totalVoted s) (length ?l * 350) else Some 0) = Some g"
    using guarded_percent_total by blast
  have ai: "array_index ''101'' = Some 101" "array_index ''Sanz, Luis'' = None"
    by (simp_all add: array_index_def)
  show ?thesis
    unfolding calculateParticipationStats_any_def Let_def
    apply (simp only: s sample_deputies g Option.bind.simps option.map)
    apply (simp add: own_entries_def ai sort_cmp_def)
    done
qed

theorem C8_witness:
  "yes_votes bare_any + no_votes bare_any < 2 ^ 53 \<and>
   length [three_absences, bare_any, totals_any] < 2 ^ 32 \<and>
   list_all (\<lambda>j. yes_votes j + no_votes j < 2 ^ 53) [three_absences, bare_any, totals_any] \<and>
   sum_list (map cast_votes [three_absences, bare_any, totals_any]) < 2 ^ 53 \<and>
   list_all deputy_records [three_absences, bare_any, totals_any] \<and>
   (\<exists>m. calculateConsensus bare_any = Some m \<and> consensusIndex m = 0) \<and>
   comparisons [three_absences, bare_any, totals_any] ''VOX'' ''GS'' = 0 \<and>
   getAffinity [three_absences, bare_any, totals_any] ''VOX'' ''GS'' = Some 0 \<and>
   (\<exists>r. getRankings [three_absences, bare_any, totals_any] = Some r) \<and>
   (\<exists>r. calculateDashboardStats [three_absences, bare_any, totals_any] = Some r) \<and>
   (\<exists>r. calculateParticipationStats_any [three_absences, bare_any, totals_any] = Some r) \<and>
   map_option (\<lambda>r. map (\<lambda>e. (dep_name e, dep_party e, dep_count e)) (deputyRanking r))
     (calculateParticipationStats_any [three_absences, bare_any, totals_any])
   = Some [(Some ''Ruiz, Ana'', Some ''GS'', 2), (Some ''Sanz, Luis'', Some ''Grupo Mixto'', 1)] \<and>
   finalizedCount (dashboard_loop [bare_any]) = 0 \<and>
   (\<exists>r. calculateDashboardStats [bare_any] = Some r \<and> globalSuccessRate r = 0 \<and>
        eff_rate (gobierno (authorEfficiency r)) = 0 \<and> eff_rate (groups (authorEfficiency r)) = 0) \<and>
   (\<exists>r. calculateParticipationStats_any [] = Some r \<and> globalCommitment r = 0)"
proof -
  let ?l = "[three_absences, bare_any, totals_any]"
  have h1: "yes_votes bare_any + no_votes bare_any < 2 ^ 53" by (simp add: sample_any_facts)
  have h2: "length ?l < 2 ^ 32" by simp
  have h3: "\<forall>j \<in> set ?l. yes_votes j + no_votes j < 2 ^ 53" by (simp add: sample_any_facts)
  have h4: "sum_list (map cast_votes ?l) < 2 ^ 53" by (simp add: sample_any_facts)
  have h5: "\<forall>j \<in> set ?l. deputy_records j" by (simp add: sample_any_facts)
  have k2: "length [bare_any] < 2 ^ 32" by simp
  have k3: "\<forall>j \<in> set [bare_any]. yes_votes j + no_votes j < 2 ^ 53" by (simp add: sample_any_facts)
  have k4: "sum_list (map cast_votes [bare_any]) < 2 ^ 53" by (simp add: sample_any_facts)
  have k5: "\<forall>j \<in> set [bare_any]. deputy_records j" by (simp add: sample_any_facts)
  have e2: "length ([] :: Initiative_any list) < 2 ^ 32" by simp
  have e3: "\<forall>j \<in> set ([] :: Initiative_any list). yes_votes j + no_votes j < 2 ^ 53" by simp
  have e4: "sum_list (map cast_votes ([] :: Initiative_any list)) < 2 ^ 53" by simp
  have e5: "\<forall>j \<in> set ([] :: Initiative_any list). deputy_records j" by simp
  have ns: "\<not> sublist ''VOX'' ''GS''" "\<not> sublist ''VOX'' ''GP''" "\<not> sublist ''VOX'' ''GV''"
    using sublist_length_le[of "''VOX''"] by fastforce+
  have c: "comparisons ?l ''VOX'' ''GS'' = 0"
    by (simp add: comparisons_def comparable_def voted_desglose_def bare_any_def
        three_absences_def totals_any_def vote_of_def keys_some_def sample_desglose_def
        str_includes_sublist ns)
  have o: "outcome bare_any = Not_finalized"
    by (simp add: outcome_def bare_any_def str_or_empty_def Aprobado_def Convalidado_def
        Rechazado_def Derogado_def Retirado_def Decaido_def i_acute_def)
  have f: "finalizedCount (dashboard_loop [bare_any]) = 0"
    by (simp add: dashboard_loop_counts o)
  have t: "gov_total (dashboard_loop [bare_any]) = 0" "group_total (dashboard_loop [bare_any]) = 0"
    by (simp_all add: dashboard_loop_def dashboard_step_not_finalized[OF o] dash_init_def)
  note a = C8_no_failure[OF h1 h2 h3 h4 h5, of "''VOX''" "''GS''"]
  note b = C8_no_failure[OF h1 k2 k3 k4 k5, of "''VOX''" "''GS''"]
  note z = C8_no_failure[OF h1 e2 e3 e4 e5, of "''VOX''" "''GS''"]
  have 1: "\<exists>m. calculateConsensus bare_any = Some m \<and> consensusIndex m = 0"
    using a[THEN conjunct1] by (auto simp: sample_any_facts)
  have 2: "getAffinity ?l ''VOX'' ''GS'' = Some 0"
    using a[THEN conjunct2, THEN conjunct1] c by auto
  have 3: "\<exists>r. getRankings ?l = Some r"
    using a[THEN conjunct2, THEN conjunct2, THEN conjunct1] .
  have 4: "\<exists>r. calculateDashboardStats ?l = Some r"
    using a[THEN conjunct2, THEN conjunct2, THEN conjunct2, THEN conjunct1] by fast
  have 5: "\<exists>r. calculateParticipationStats_any ?l = Some r"
    using a[THEN conjunct2, THEN conjunct2, THEN conjunct2, THEN conjunct2] by fast
  from b[THEN conjunct2, THEN conjunct2, THEN conjunct2, THEN conjunct1] obtain r where
    r: "calculateDashboardStats [bare_any] = Some r"
       "finalizedCount (dashboard_loop [bare_any]) = 0 \<longrightarrow> globalSuccessRate r = 0"
       "eff_total (gobierno (authorEfficiency r)) = 0 \<longrightarrow> eff_rate (gobierno (authorEfficiency r)) = 0"
       "eff_total (groups (authorEfficiency r)) = 0 \<longrightarrow> eff_rate (groups (authorEfficiency r)) = 0"
    by (elim exE conjE) (rule that)
  have e: "eff_total (gobierno (authorEfficiency r)) = 0" "eff_total (groups (authorEfficiency r)) = 0"
    using dashboard_author_totals[OF r(1)] t by simp_all
  have 6: "\<exists>r. calculateDashboardStats [bare_any] = Some r \<and> globalSuccessRate r = 0 \<and>
        eff_rate (gobierno (authorEfficiency r)) = 0 \<and> eff_rate (groups (authorEfficiency r)) = 0"
    using r e f by (intro exI[where x = r]) simp
  have 7: "\<exists>r. calculateParticipationStats_any [] = Some r \<and> globalCommitment r = 0"
    using z[THEN conjunct2, THEN conjunct2, THEN conjunct2, THEN conjunct2] by auto
  have l3: "list_all (\<lambda>j. yes_votes j + no_votes j < 2 ^ 53) ?l"
    and l5: "list_all deputy_records ?l"
    using h3 h5 by (simp_all add: list_all_iff)
  show ?thesis using h1 h2 l3 h4 l5 1 c 2 3 4 5 sample_deputy_ranking f 6 7 by (intro conjI)
qed

text \<open>
  Claim C8 as written fails on an initiative whose list \<open>missingDeputies\<close> holds \<open>null\<close>:
  line 140 reads \<open>deputy.codParlamentario\<close> of it, which raises a \<open>TypeError\<close>, and
  \<open>calculateParticipationStats\<close> returns nothing. So it does on an initiative whose
  \<open>noVote\<close> is a number, at \<open>noVoteList.forEach\<close>, and on one whose list holds a deputy
  with a number for \<open>grupo\<close>, at \<open>deputy.grupo.toLowerCase()\<close>.
\<close>

theorem C8_counterexample:
  "noVoteList_any null_deputy = Some [Null] \<and>
   calculateParticipationStats_any [null_deputy] = None \<and>
   calculateParticipationStats_any [no_array] = None \<and>
   calculateParticipationStats_any [odd_grupo] = None"
proof -
  have q: "qualifying null_deputy = None" "qualifying no_array = None" "qualifying odd_grupo = None"
    by (simp_all add: qualifying_def null_deputy_def no_array_def odd_grupo_def)
  have l: "noVoteList_any null_deputy = Some [Null]"
    by (simp add: noVoteList_any_def null_deputy_def)
  have i: "\<not> inherited ''102''" by (simp add: inherited_def prototype_members_def)
  have d: "deputies_any null_deputy [] = None" "deputies_any no_array [] = None"
    "deputies_any odd_grupo [] = None"
    by (simp_all add: deputies_any_def deputy_step_any_def noVoteList_any_def null_deputy_def
        no_array_def odd_grupo_def deputy_id_any_def new_entry_any_def i)
  show ?thesis
    using l d by (simp add: calculateParticipationStats_any_def participation_step_skip q)
qed

end
